theory Spec2Isabelle
  imports Complex_Main "HOL-Library.Word"
begin

unbundle bit_operations_syntax

section \<open>wradlib.io: the DX, RADOLAN and Rainbow readers\<close>

text \<open>
  A shallow embedding of \<^verbatim>\<open>src/wradlib/io.py\<close> (Python 2 with NumPy).
  A Python 2 \<^verbatim>\<open>str\<close> is a byte string, hence a \<^typ>\<open>string\<close>; Python integers are
  \<^typ>\<open>int\<close>; elements of a \<^verbatim>\<open>uint16\<close> array are \<^typ>\<open>16 word\<close>. A raised exception is
  the left injection of a sum type, a call that never returns is \<open>None\<close>.
\<close>

subsection \<open>Exceptions and values\<close>

datatype error =
    ValueError string
  | KeyError string
  | AssertionError
  | IndexError
  | TypeError string
  | EOFError string

text \<open>\<^verbatim>\<open>sys.byteorder\<close> of the host: \<^verbatim>\<open>'little'\<close> or \<^verbatim>\<open>'big'\<close>.\<close>

datatype byteorder = Little | Big

subsection \<open>Python built-ins used by the module\<close>

text \<open>Slices \<^verbatim>\<open>s[a:b]\<close> and \<^verbatim>\<open>s[a:]\<close>: a negative bound counts from the end, both
  bounds are clamped to the sequence.\<close>

definition slice_bound :: "nat \<Rightarrow> int \<Rightarrow> nat" where
  "slice_bound n i = (if i < 0 then nat (max 0 (int n + i)) else min n (nat i))"

definition py_slice :: "'a list \<Rightarrow> int \<Rightarrow> int \<Rightarrow> 'a list" where
  "py_slice s a b =
     (let lo = slice_bound (length s) a; hi = slice_bound (length s) b
      in take (hi - lo) (drop lo s))"

definition py_slice_from :: "'a list \<Rightarrow> int \<Rightarrow> 'a list" where
  "py_slice_from s a = drop (slice_bound (length s) a) s"

text \<open>\<^verbatim>\<open>s.find(sub)\<close>: the index of the first occurrence of \<open>sub\<close>, or \<open>-1\<close>.\<close>

fun find_from :: "string \<Rightarrow> string \<Rightarrow> nat \<Rightarrow> int" where
  "find_from sub [] i = (if sub = [] then int i else - 1)"
| "find_from sub (c # cs) i =
     (if take (length sub) (c # cs) = sub then int i else find_from sub cs (Suc i))"

definition py_find :: "string \<Rightarrow> string \<Rightarrow> int" where
  "py_find s sub = find_from sub s 0"

text \<open>\<^verbatim>\<open>str(n)\<close> of an integer.\<close>

function str_nat :: "nat \<Rightarrow> string" where
  "str_nat n = (if n < 10 then [''0123456789'' ! n]
                else str_nat (n div 10) @ [''0123456789'' ! (n mod 10)])"
  by pat_completeness auto
termination
  by (relation "measure id") auto

definition str_int :: "int \<Rightarrow> string" where
  "str_int i = (if i < 0 then CHR ''-'' # str_nat (nat (- i)) else str_nat (nat i))"

text \<open>Character classes of the C locale, as \<^verbatim>\<open>isspace\<close> and \<^verbatim>\<open>isdigit\<close> see them.\<close>

definition is_space :: "char \<Rightarrow> bool" where
  "is_space c = (c \<in> set [CHR '' '', CHR 0x09, CHR 0x0A, CHR 0x0B, CHR 0x0C, CHR 0x0D])"

definition is_digit :: "char \<Rightarrow> bool" where
  "is_digit c = (48 \<le> (of_char c :: nat) \<and> (of_char c :: nat) \<le> 57)"

definition digit_val :: "char \<Rightarrow> nat" where
  "digit_val c = of_char c - 48"

definition digits_val :: "string \<Rightarrow> nat" where
  "digits_val ds = foldl (\<lambda>a c. 10 * a + digit_val c) 0 ds"

text \<open>\<^verbatim>\<open>s.strip()\<close>, \<^verbatim>\<open>s.strip(chars)\<close> and \<^verbatim>\<open>s.split(sep)\<close> for a one-character
  separator.\<close>

definition strip_with :: "(char \<Rightarrow> bool) \<Rightarrow> string \<Rightarrow> string" where
  "strip_with p s = rev (dropWhile p (rev (dropWhile p s)))"

definition py_strip :: "string \<Rightarrow> string" where
  "py_strip s = strip_with is_space s"

definition py_strip_chars :: "string \<Rightarrow> string \<Rightarrow> string" where
  "py_strip_chars s chars = strip_with (\<lambda>c. c \<in> set chars) s"

fun py_split :: "string \<Rightarrow> char \<Rightarrow> string list" where
  "py_split [] sep = [[]]"
| "py_split (c # cs) sep =
     (if c = sep then [] # py_split cs sep
      else (case py_split cs sep of
              [] \<Rightarrow> [[c]]
            | w # ws \<Rightarrow> (c # w) # ws))"

text \<open>
  \<^verbatim>\<open>int(s)\<close> of a Python 2 \<^verbatim>\<open>str\<close> in base 10 (\<^verbatim>\<open>PyInt_FromString\<close> over
  \<^verbatim>\<open>PyOS_strtol\<close>): white space, an optional sign, white space again, at least one
  decimal digit, white space, and nothing else. \<open>None\<close> stands for the \<^verbatim>\<open>ValueError\<close>.
\<close>

definition py_int :: "string \<Rightarrow> int option" where
  "py_int s =
     (let s1 = dropWhile is_space s;
          neg = (take 1 s1 = ''-'');
          s2 = (if take 1 s1 = ''-'' \<or> take 1 s1 = ''+'' then drop 1 s1 else s1);
          s3 = dropWhile is_space s2;
          ds = takeWhile is_digit s3;
          rest = dropWhile is_space (dropWhile is_digit s3)
      in if ds = [] \<or> rest \<noteq> [] then None
         else Some (if neg then - int (digits_val ds) else int (digits_val ds)))"

text \<open>
  \<^verbatim>\<open>float(s)\<close> of Python 2.7: surrounding white space is stripped; then an optional
  sign and either \<^verbatim>\<open>inf\<close>, \<^verbatim>\<open>infinity\<close> or \<^verbatim>\<open>nan\<close> in any case, or a decimal literal
  with an optional exponent. The finite value kept here is the rational number the
  literal denotes (the \<^verbatim>\<open>float\<close> is the double nearest to it).
\<close>

datatype pyfloat = Finite rat | Infinite bool | NaN

definition lower :: "char \<Rightarrow> char" where
  "lower c = (if 65 \<le> (of_char c :: nat) \<and> (of_char c :: nat) \<le> 90
              then char_of ((of_char c :: nat) + 32) else c)"

definition scale10 :: "rat \<Rightarrow> int \<Rightarrow> rat" where
  "scale10 q e = (if 0 \<le> e then q * 10 ^ nat e else q / 10 ^ nat (- e))"

definition float_exponent :: "string \<Rightarrow> int option" where
  "float_exponent s =
     (if s = [] then Some 0
      else if lower (hd s) \<noteq> CHR ''e'' then None
      else
        let s1 = tl s;
            neg = (take 1 s1 = ''-'');
            s2 = (if take 1 s1 = ''-'' \<or> take 1 s1 = ''+'' then drop 1 s1 else s1)
        in if s2 = [] \<or> \<not> list_all is_digit s2 then None
           else Some (if neg then - int (digits_val s2) else int (digits_val s2)))"

definition float_decimal :: "string \<Rightarrow> rat option" where
  "float_decimal s =
     (let d1 = takeWhile is_digit s;
          r1 = dropWhile is_digit s;
          point = (take 1 r1 = ''.'');
          d2 = (if point then takeWhile is_digit (drop 1 r1) else []);
          r2 = (if point then dropWhile is_digit (drop 1 r1) else r1)
      in if d1 = [] \<and> d2 = [] then None
         else (case float_exponent r2 of
                 None \<Rightarrow> None
               | Some e \<Rightarrow>
                   Some (scale10 (of_nat (digits_val (d1 @ d2))) (e - int (length d2)))))"

definition py_float :: "string \<Rightarrow> pyfloat option" where
  "py_float s =
     (let s1 = py_strip s;
          neg = (take 1 s1 = ''-'');
          s2 = (if take 1 s1 = ''-'' \<or> take 1 s1 = ''+'' then drop 1 s1 else s1);
          low = map lower s2
      in if low = ''inf'' \<or> low = ''infinity'' then Some (Infinite neg)
         else if low = ''nan'' then Some NaN
         else (case float_decimal s2 of
                 None \<Rightarrow> None
               | Some q \<Rightarrow> Some (Finite (if neg then - q else q))))"

text \<open>Sequencing of calls that may raise.\<close>

definition bind_e :: "error + 'a \<Rightarrow> ('a \<Rightarrow> error + 'b) \<Rightarrow> error + 'b" where
  "bind_e m f = (case m of Inl e \<Rightarrow> Inl e | Inr x \<Rightarrow> f x)"

fun traverse :: "('a \<Rightarrow> error + 'b) \<Rightarrow> 'a list \<Rightarrow> error + 'b list" where
  "traverse f [] = Inr []"
| "traverse f (x # xs) =
     bind_e (f x) (\<lambda>y. bind_e (traverse f xs) (\<lambda>ys. Inr (y # ys)))"

definition int_of_str :: "string \<Rightarrow> error + int" where
  "int_of_str s =
     (case py_int s of
        None \<Rightarrow> Inl (ValueError (''invalid literal for int() with base 10: '' @ s))
      | Some n \<Rightarrow> Inr n)"

definition float_of_str :: "string \<Rightarrow> error + pyfloat" where
  "float_of_str s =
     (case py_float s of
        None \<Rightarrow> Inl (ValueError (''could not convert string to float: '' @ s))
      | Some x \<Rightarrow> Inr x)"

subsection \<open>\<^verbatim>\<open>datetime.strptime(s, "%d%H%M%m%y%S")\<close>\<close>

text \<open>
  \<^verbatim>\<open>_strptime\<close> turns the format into one regular expression, a group per directive:
  \<^verbatim>\<open>%d\<close> is \<^verbatim>\<open>3[0-1]|[1-2]\d|0[1-9]|[1-9]| [1-9]\<close>, \<^verbatim>\<open>%H\<close> is \<^verbatim>\<open>2[0-3]|[0-1]\d|\d\<close>,
  \<^verbatim>\<open>%M\<close> is \<^verbatim>\<open>[0-5]\d|\d\<close>, \<^verbatim>\<open>%m\<close> is \<^verbatim>\<open>1[0-2]|0[1-9]|[1-9]\<close>, \<^verbatim>\<open>%y\<close> is \<^verbatim>\<open>\d\d\<close> and
  \<^verbatim>\<open>%S\<close> is \<^verbatim>\<open>6[0-1]|[0-5]\d|\d\<close>. The match is the first one in the order of the
  alternatives (with backtracking); it must use up the whole string. A group is
  modelled by the list of its matches, best first, each with the rest of the string.
\<close>

record datetime =
  dt_year :: nat
  dt_month :: nat
  dt_day :: nat
  dt_hour :: nat
  dt_minute :: nat
  dt_second :: nat

definition in_range :: "char \<Rightarrow> char \<Rightarrow> char \<Rightarrow> bool" where
  "in_range lo hi c = ((of_char lo :: nat) \<le> of_char c \<and> (of_char c :: nat) \<le> of_char hi)"

definition alt2 :: "(char \<Rightarrow> bool) \<Rightarrow> (char \<Rightarrow> bool) \<Rightarrow> string \<Rightarrow> (nat \<times> string) list" where
  "alt2 p q s =
     (case s of
        a # b # r \<Rightarrow>
          if p a \<and> q b
          then [((if a = CHR '' '' then 0 else 10 * digit_val a) + digit_val b, r)]
          else []
      | _ \<Rightarrow> [])"

definition alt1 :: "(char \<Rightarrow> bool) \<Rightarrow> string \<Rightarrow> (nat \<times> string) list" where
  "alt1 p s = (case s of a # r \<Rightarrow> if p a then [(digit_val a, r)] else [] | _ \<Rightarrow> [])"

definition re_d :: "string \<Rightarrow> (nat \<times> string) list" where
  "re_d s = alt2 (\<lambda>c. c = CHR ''3'') (in_range CHR ''0'' CHR ''1'') s
          @ alt2 (in_range CHR ''1'' CHR ''2'') is_digit s
          @ alt2 (\<lambda>c. c = CHR ''0'') (in_range CHR ''1'' CHR ''9'') s
          @ alt1 (in_range CHR ''1'' CHR ''9'') s
          @ alt2 (\<lambda>c. c = CHR '' '') (in_range CHR ''1'' CHR ''9'') s"

definition re_H :: "string \<Rightarrow> (nat \<times> string) list" where
  "re_H s = alt2 (\<lambda>c. c = CHR ''2'') (in_range CHR ''0'' CHR ''3'') s
          @ alt2 (in_range CHR ''0'' CHR ''1'') is_digit s
          @ alt1 is_digit s"

definition re_M :: "string \<Rightarrow> (nat \<times> string) list" where
  "re_M s = alt2 (in_range CHR ''0'' CHR ''5'') is_digit s @ alt1 is_digit s"

definition re_m :: "string \<Rightarrow> (nat \<times> string) list" where
  "re_m s = alt2 (\<lambda>c. c = CHR ''1'') (in_range CHR ''0'' CHR ''2'') s
          @ alt2 (\<lambda>c. c = CHR ''0'') (in_range CHR ''1'' CHR ''9'') s
          @ alt1 (in_range CHR ''1'' CHR ''9'') s"

definition re_y :: "string \<Rightarrow> (nat \<times> string) list" where
  "re_y s = alt2 is_digit is_digit s"

definition re_S :: "string \<Rightarrow> (nat \<times> string) list" where
  "re_S s = alt2 (\<lambda>c. c = CHR ''6'') (in_range CHR ''0'' CHR ''1'') s
          @ alt2 (in_range CHR ''0'' CHR ''5'') is_digit s
          @ alt1 is_digit s"

text \<open>All matches of the six groups in a row, in the order the matcher tries them.\<close>

definition re_dHMmyS :: "string \<Rightarrow> ((nat \<times> nat \<times> nat \<times> nat \<times> nat \<times> nat) \<times> string) list" where
  "re_dHMmyS s =
     concat (map (\<lambda>(d, s1).
     concat (map (\<lambda>(H, s2).
     concat (map (\<lambda>(M, s3).
     concat (map (\<lambda>(m, s4).
     concat (map (\<lambda>(y, s5).
             map (\<lambda>(S, s6). ((d, H, M, m, y, S), s6)) (re_S s5))
       (re_y s4))) (re_m s3))) (re_M s2))) (re_H s1))) (re_d s))"

definition leap_year :: "nat \<Rightarrow> bool" where
  "leap_year y = (y mod 4 = 0 \<and> (y mod 400 = 0 \<or> y mod 100 \<noteq> 0))"

definition days_in_month :: "nat \<Rightarrow> nat \<Rightarrow> nat" where
  "days_in_month y m =
     (if m = 2 then (if leap_year y then 29 else 28)
      else if m \<in> set [4, 6, 9, 11] then 30 else 31)"

definition strptime_dHMmyS :: "string \<Rightarrow> error + datetime" where
  "strptime_dHMmyS s =
     (case re_dHMmyS s of
        [] \<Rightarrow> Inl (ValueError (''time data does not match format: '' @ s))
      | ((d, H, M, m, y, S), rest) # _ \<Rightarrow>
          if rest \<noteq> [] then Inl (ValueError (''unconverted data remains: '' @ rest))
          else
            let year = (if y \<le> 68 then y + 2000 else y + 1900)
            in if days_in_month year m < d
               then Inl (ValueError ''day is out of range for month'')
               else if 59 < S then Inl (ValueError ''second must be in 0..59'')
               else Inr \<lparr>dt_year = year, dt_month = m, dt_day = d,
                         dt_hour = H, dt_minute = M, dt_second = S\<rparr>)"

subsection \<open>Dictionaries of attributes\<close>

datatype pyval =
    PStr string
  | PInt int
  | PFloat pyfloat
  | PBool bool
  | PDateTime datetime
  | PList "pyval list"

type_synonym pydict = "string \<rightharpoonup> pyval"

definition dict_get :: "pydict \<Rightarrow> string \<Rightarrow> error + pyval" where
  "dict_get d k = (case d k of None \<Rightarrow> Inl (KeyError k) | Some v \<Rightarrow> Inr v)"

text \<open>An operand that must be an integer (arithmetic on anything else raises).\<close>

definition as_int :: "pyval \<Rightarrow> error + int" where
  "as_int v = (case v of PInt n \<Rightarrow> Inr n | _ \<Rightarrow> Inl (TypeError ''integer expected''))"

subsection \<open>DX: \<^verbatim>\<open>parse_DX_header\<close>\<close>

definition parse_DX_header :: "string \<Rightarrow> error + pydict" where
  "parse_DX_header header =
     (let out = Map.empty;
          out = out(''producttype'' \<mapsto> PStr (py_slice header 0 2))
      in bind_e (strptime_dHMmyS (py_slice header 2 8 @ py_slice header 13 17 @ ''00''))
      (\<lambda>d.
      let out = out(''datetime'' \<mapsto> PDateTime d);
          out = out(''radarid'' \<mapsto> PStr (py_slice header 8 13));
          pos_BY = py_find header ''BY'';
          pos_VS = py_find header ''VS'';
          pos_CO = py_find header ''CO'';
          pos_CD = py_find header ''CD'';
          pos_CS = py_find header ''CS'';
          pos_EP = py_find header ''EP'';
          pos_MS = py_find header ''MS''
      in bind_e (int_of_str (py_slice header (pos_BY + 2) (pos_BY + 7)))
      (\<lambda>bytes.
      let out = out(''bytes'' \<mapsto> PInt bytes);
          out = out(''version'' \<mapsto> PStr (py_slice header (pos_VS + 2) (pos_VS + 4)))
      in bind_e (int_of_str (py_slice header (pos_CO + 2) (pos_CO + 3)))
      (\<lambda>cluttermap.
      let out = out(''cluttermap'' \<mapsto> PInt cluttermap)
      in bind_e (int_of_str (py_slice header (pos_CD + 2) (pos_CD + 3)))
      (\<lambda>dopplerfilter.
      let out = out(''dopplerfilter'' \<mapsto> PInt dopplerfilter)
      in bind_e (int_of_str (py_slice header (pos_CS + 2) (pos_CS + 3)))
      (\<lambda>statfilter.
      let out = out(''statfilter'' \<mapsto> PInt statfilter)
      in bind_e (traverse
                   (\<lambda>i. float_of_str
                          (py_slice header (pos_EP + 2 + 3 * i) (pos_EP + 2 + 3 * (i + 1))))
                   [0, 1, 2, 3, 4, 5, 6, 7])
      (\<lambda>elevprofile.
      let out = out(''elevprofile'' \<mapsto> PList (map PFloat elevprofile))
      in bind_e (int_of_str (py_slice header (pos_MS + 2) (pos_MS + 5)))
      (\<lambda>msglen.
      let out = out(''message'' \<mapsto> PStr (py_slice header (pos_MS + 5) (pos_MS + 5 + msglen)))
      in Inr out))))))))"

subsection \<open>Rainbow: \<^verbatim>\<open>get_RB_data_layout\<close>\<close>

text \<open>
  \<^verbatim>\<open>datawidth = datadepth / 8\<close> is Python 2 integer division (the depth comes from
  \<^verbatim>\<open>int(...)\<close> in \<^verbatim>\<open>get_RB_data_attribute\<close>), which rounds down as \<open>div\<close> does.
\<close>

definition get_RB_data_layout :: "byteorder \<Rightarrow> int \<Rightarrow> error + (int \<times> string)" where
  "get_RB_data_layout host datadepth =
     (let byteorder = (if host \<noteq> Big then ''>'' else ''<'');
          datawidth = datadepth div 8
      in if datawidth \<in> set [1, 2, 4]
         then Inr (datawidth, byteorder @ ''u'' @ str_int datawidth)
         else Inl (ValueError (''Wrong DataDepth: '' @ str_int datadepth @
                               ''. Conversion only for depth 8, 16, 32'')))"

subsection \<open>DX: \<^verbatim>\<open>unpackDX\<close>\<close>

text \<open>\<^verbatim>\<open>np.where(raw & flag)[0]\<close>: the indices of the values with the flag bit set.\<close>

definition where_flag :: "16 word list \<Rightarrow> 16 word \<Rightarrow> nat list" where
  "where_flag raw flag = filter (\<lambda>i. raw ! i AND flag \<noteq> 0) [0..<length raw]"

text \<open>The loop over \<^verbatim>\<open>zip(flagged[:-1], flagged[1:])\<close>, the beam passed along.\<close>

fun unpack_loop :: "16 word list \<Rightarrow> 16 word \<Rightarrow> (nat \<times> nat) list \<Rightarrow> 16 word list \<Rightarrow> 16 word list" where
  "unpack_loop raw data [] beam = beam"
| "unpack_loop raw data ((this, next) # rest) beam =
     unpack_loop raw data rest
       (beam @ replicate (unat (raw ! this AND data)) 0
             @ take (next - (this + 1)) (drop (this + 1) raw))"

definition unpackDX :: "16 word list \<Rightarrow> error + 16 word list" where
  "unpackDX raw =
     (let data = 4095; flag = 4096;
          flagged = where_flag raw flag
      in if length flagged = 0
         then (if length raw = 128 then Inr raw else Inl AssertionError)
         else
           let beam = take (hd flagged) raw;
               beam = unpack_loop raw data (zip (butlast flagged) (tl flagged)) beam;
               beam = beam @ replicate (unat (raw ! last flagged AND data)) 0;
               beam = beam @ drop (last flagged + 1) raw
           in Inr beam)"

subsection \<open>DX: \<^verbatim>\<open>readDX\<close>\<close>

text \<open>
  The file is the string of its bytes and a read position. \<^verbatim>\<open>f.read(1)\<close> returns the
  empty string at the end of the file. The header loop has no other exit than the
  \<^verbatim>\<open>break\<close>, so it is a partial function: \<open>None\<close> is the loop that never ends.
\<close>

partial_function (option) dx_read_header :: "string \<Rightarrow> nat \<Rightarrow> string \<Rightarrow> bool \<Rightarrow> string option" where
  "dx_read_header content pos header atend =
     (let mychar = take 1 (drop pos content);
          atend = (if mychar = [CHR 0x03] then True else atend)
      in if mychar \<noteq> [CHR 0x03] \<and> atend then Some header
         else dx_read_header content (pos + length mychar) (header @ mychar) atend)"

declare dx_read_header.simps [code]

text \<open>\<^verbatim>\<open>f.read(n)\<close> from a position: a negative \<open>n\<close> reads to the end of the file.\<close>

definition file_read :: "string \<Rightarrow> nat \<Rightarrow> int \<Rightarrow> string" where
  "file_read content pos n =
     (if n < 0 then drop pos content else take (nat n) (drop pos content))"

text \<open>\<^verbatim>\<open>np.frombuffer(buf, dtype='uint16')\<close>, in the byte order of the host.\<close>

fun uint16_pairs :: "byteorder \<Rightarrow> string \<Rightarrow> 16 word list" where
  "uint16_pairs host (a # b # r) =
     (if host = Little then word_of_nat (of_char a + 256 * of_char b)
      else word_of_nat (256 * of_char a + of_char b)) # uint16_pairs host r"
| "uint16_pairs host r = []"

definition frombuffer_uint16 :: "byteorder \<Rightarrow> string \<Rightarrow> error + 16 word list" where
  "frombuffer_uint16 host buf =
     (if odd (length buf)
      then Inl (ValueError ''buffer size must be a multiple of element size'')
      else Inr (uint16_pairs host buf))"

text \<open>The number of payload bytes to read (\<^verbatim>\<open>buflen\<close>), from \<^verbatim>\<open>attrs['bytes']\<close> and
  \<^verbatim>\<open>len(header)\<close>.\<close>

definition dx_buflen :: "int \<Rightarrow> int \<Rightarrow> int" where
  "dx_buflen bytes header_len =
     (let buflen = bytes - header_len
      in if buflen mod 2 \<noteq> 0 then buflen - 1 else buflen)"

text \<open>Indexing a one-dimensional array with a non-negative index.\<close>

definition np_index :: "'a list \<Rightarrow> nat \<Rightarrow> error + 'a" where
  "np_index xs i = (if i < length xs then Inr (xs ! i) else Inl IndexError)"

text \<open>The loop over the beams: \<open>beams\<close>, \<open>elevs\<close> and \<open>azims\<close> are passed along. The
  quotient by \<^verbatim>\<open>10.\<close> is kept as a rational number.\<close>

fun dx_beam_loop ::
  "16 word list \<Rightarrow> nat list \<Rightarrow> nat list \<Rightarrow> 16 word list list \<times> rat list \<times> rat list
     \<Rightarrow> error + (16 word list list \<times> rat list \<times> rat list)" where
  "dx_beam_loop raw newazimuths [] acc = Inr acc"
| "dx_beam_loop raw newazimuths (i # is) (beams, elevs, azims) =
     bind_e (unpackDX (take (newazimuths ! (i + 1) - (newazimuths ! i + 3))
                            (drop (newazimuths ! i + 3) raw)))
     (\<lambda>beam.
     bind_e (np_index raw (newazimuths ! i + 2))
     (\<lambda>e.
     bind_e (np_index raw (newazimuths ! i + 1))
     (\<lambda>a.
       dx_beam_loop raw newazimuths is
         (beams @ [beam],
          elevs @ [of_nat (unat (e AND 4095)) / 10],
          azims @ [of_nat (unat (a AND 4095)) / 10]))))"

text \<open>From the bytes read to the beams (\<^verbatim>\<open>np.frombuffer\<close>, the beam markers, the loop).\<close>

definition dx_beams ::
  "byteorder \<Rightarrow> string \<Rightarrow> error + (16 word list list \<times> rat list \<times> rat list)" where
  "dx_beams host buf =
     (let azimuthbitmask = (8192 :: 16 word)
      in bind_e (frombuffer_uint16 host buf)
      (\<lambda>raw.
      let newazimuths = filter (\<lambda>i. raw ! i = azimuthbitmask) [0..<length raw];
          newazimuths = newazimuths @ [length raw]
      in dx_beam_loop raw newazimuths [0..<length newazimuths - 1] ([], [], [])))"

text \<open>
  The arrays built at the end and the result. \<^verbatim>\<open>np.array(beams)\<close> of no beam at all,
  or of beams one of which is empty, holds a float array (\<^verbatim>\<open>np.array([])\<close> is one), on
  which \<^verbatim>\<open>beams & clutterflag\<close> raises a \<^verbatim>\<open>TypeError\<close>. Otherwise the arrays are kept as
  lists of lists, one per beam, whatever their lengths; what NumPy makes of beams of
  unequal lengths (an array of objects) is not part of the model.
\<close>

definition dx_arrays ::
  "pydict \<Rightarrow> 16 word list list \<times> rat list \<times> rat list \<Rightarrow> error + (rat list list \<times> pydict)" where
  "dx_arrays attrs sweep =
     (case sweep of (beams, elevs, azims) \<Rightarrow>
      let clutterflag = (32768 :: 16 word); dataflag = (8191 :: 16 word);
          attrs = attrs(''elev'' \<mapsto> PList (map (\<lambda>x. PFloat (Finite x)) elevs));
          attrs = attrs(''azim'' \<mapsto> PList (map (\<lambda>x. PFloat (Finite x)) azims))
      in if beams = [] \<or> [] \<in> set beams
         then Inl (TypeError ''unsupported operand type(s) for &'')
         else
           let attrs = attrs(''clutter'' \<mapsto>
                 PList (map (\<lambda>beam. PList (map (\<lambda>v. PBool (v AND clutterflag \<noteq> 0)) beam)) beams))
           in Inr (map (\<lambda>beam. map (\<lambda>v. of_nat (unat (v AND dataflag)) * (1 / 2) - 65 / 2) beam)
                     beams,
                   attrs))"

text \<open>The body of \<^verbatim>\<open>readDX\<close> after the header loop: the header is parsed, the payload
  is read from the position behind the header, and decoded.\<close>

definition readDX_decode :: "byteorder \<Rightarrow> string \<Rightarrow> string \<Rightarrow> error + (rat list list \<times> pydict)" where
  "readDX_decode host content header =
     bind_e (parse_DX_header header)
     (\<lambda>attrs.
     bind_e (dict_get attrs ''bytes'')
     (\<lambda>b.
     bind_e (as_int b)
     (\<lambda>bytes.
     let buflen = dx_buflen bytes (int (length header));
         buf = file_read content (length header) buflen
     in bind_e (dx_beams host buf) (dx_arrays attrs))))"

text \<open>\<^verbatim>\<open>readDX\<close> of a file given by its name (opened here, read from its start).\<close>

definition readDX :: "byteorder \<Rightarrow> string \<Rightarrow> (error + (rat list list \<times> pydict)) option" where
  "readDX host content =
     (case dx_read_header content 0 [] False of
        None \<Rightarrow> None
      | Some header \<Rightarrow> Some (readDX_decode host content header))"

subsection \<open>RADOLAN: \<^verbatim>\<open>parse_DWD_quant_composite_header\<close>\<close>

text \<open>\<^verbatim>\<open>10 ** n\<close>: an integer for \<open>n \<ge> 0\<close>, a float otherwise.\<close>

definition py_pow10 :: "int \<Rightarrow> pyval" where
  "py_pow10 n = (if 0 \<le> n then PInt (10 ^ nat n) else PFloat (Finite (1 / 10 ^ nat (- n))))"

definition maxrange_table :: "int \<rightharpoonup> string" where
  "maxrange_table = [0 \<mapsto> ''100 km and 128 km (mixed)'', 1 \<mapsto> ''100 km'',
                     2 \<mapsto> ''128 km'', 3 \<mapsto> ''150 km'']"

definition list_index :: "'a list \<Rightarrow> nat \<Rightarrow> error + 'a" where
  "list_index xs i = (if i < length xs then Inr (xs ! i) else Inl IndexError)"

definition parse_DWD_quant_composite_header :: "string \<Rightarrow> error + pydict" where
  "parse_DWD_quant_composite_header header =
     (let out = Map.empty;
          pos_VS = py_find header ''VS'';
          pos_SW = py_find header ''SW'';
          pos_PR = py_find header ''PR'';
          pos_INT = py_find header ''INT'';
          pos_GP = py_find header ''GP'';
          pos_MS = py_find header ''MS''
      in bind_e
           (if pos_VS > - 1
            then bind_e (int_of_str (py_slice header (pos_VS + 2) (pos_VS + 4)))
                   (\<lambda>code. case maxrange_table code of
                              None \<Rightarrow> Inl (KeyError (str_int code))
                            | Some r \<Rightarrow> Inr (out(''maxrange'' \<mapsto> PStr r)))
            else Inr (out(''maxrange'' \<mapsto> PStr ''100 km'')))
      (\<lambda>out.
      let out = out(''radolanversion'' \<mapsto> PStr (py_slice header (pos_SW + 2) (pos_SW + 11)))
      in bind_e (int_of_str (py_slice header (pos_PR + 4) (pos_PR + 7)))
      (\<lambda>exponent.
      let out = out(''precision'' \<mapsto> py_pow10 exponent)
      in bind_e (int_of_str (py_slice header (pos_INT + 3) (pos_INT + 7)))
      (\<lambda>minutes.
      let out = out(''intervalseconds'' \<mapsto> PInt (minutes * 60));
          dimstrings = py_split (py_strip (py_slice header (pos_GP + 2) (pos_GP + 11))) CHR ''x''
      in bind_e (list_index dimstrings 0)
      (\<lambda>d0.
      bind_e (int_of_str d0)
      (\<lambda>nrow.
      let out = out(''nrow'' \<mapsto> PInt nrow)
      in bind_e (list_index dimstrings 1)
      (\<lambda>d1.
      bind_e (int_of_str d1)
      (\<lambda>ncol.
      let out = out(''ncol'' \<mapsto> PInt ncol)
      in bind_e (list_index (py_split (py_strip (py_slice_from header (pos_MS + 2))) CHR ''<'') 1)
      (\<lambda>loc.
      let locationstring = py_strip_chars (py_strip loc) ''>'';
          out = out(''radarlocations'' \<mapsto> PList (map PStr (py_split locationstring CHR '','')))
      in Inr out)))))))))"

subsection \<open>RADOLAN: \<^verbatim>\<open>read_RADOLAN_composite\<close>\<close>

text \<open>The header loop; it returns the header and the file position behind the
  terminator.\<close>

partial_function (option) radolan_read_header :: "string \<Rightarrow> nat \<Rightarrow> string \<Rightarrow> (string \<times> nat) option" where
  "radolan_read_header content pos header =
     (let mychar = take 1 (drop pos content)
      in if mychar = [CHR 0x03] then Some (header, pos + length mychar)
         else radolan_read_header content (pos + length mychar) (header @ mychar))"

declare radolan_read_header.simps [code]

text \<open>\<^verbatim>\<open>np.where(cond)\<close> on a one-dimensional array: the indices where it holds.\<close>

definition np_where :: "('a \<Rightarrow> bool) \<Rightarrow> 'a list \<Rightarrow> nat list" where
  "np_where p xs = filter (\<lambda>i. p (xs ! i)) [0..<length xs]"

text \<open>\<^verbatim>\<open>arr[idx] = f(arr[idx])\<close> for an index array \<open>idx\<close>.\<close>

definition update_at :: "nat list \<Rightarrow> ('a \<Rightarrow> 'a) \<Rightarrow> 'a list \<Rightarrow> 'a list" where
  "update_at idx f xs = map (\<lambda>i. if i \<in> set idx then f (xs ! i) else xs ! i) [0..<length xs]"

text \<open>
  \<^verbatim>\<open>arr *= precision\<close> on the integer array. With an integer factor it is the
  product. With a float factor the NumPy releases of the time cast the float product
  back into the integer array, which truncates it toward zero (from NumPy 1.10 on
  the statement raises instead); the product is taken here in the rationals.
\<close>

definition truncate_rat :: "rat \<Rightarrow> int" where
  "truncate_rat q = (if 0 \<le> q then \<lfloor>q\<rfloor> else - \<lfloor>- q\<rfloor>)"

definition imul_precision :: "int list \<Rightarrow> pyval \<Rightarrow> error + int list" where
  "imul_precision arr precision =
     (case precision of
        PInt p \<Rightarrow> Inr (map (\<lambda>v. v * p) arr)
      | PFloat (Finite q) \<Rightarrow> Inr (map (\<lambda>v. truncate_rat (of_int v * q)) arr)
      | _ \<Rightarrow> Inl (TypeError ''unsupported operand for *=''))"

text \<open>\<^verbatim>\<open>arr.reshape((nrow, ncol))\<close>, row-major; one dimension may be \<open>-1\<close> (inferred).\<close>

fun chunks :: "nat \<Rightarrow> nat \<Rightarrow> 'a list \<Rightarrow> 'a list list" where
  "chunks 0 c xs = []"
| "chunks (Suc r) c xs = take c xs # chunks r c (drop c xs)"

definition reshape :: "int \<Rightarrow> int \<Rightarrow> 'a list \<Rightarrow> error + 'a list list" where
  "reshape nrow ncol arr =
     (let n = int (length arr)
      in if 0 \<le> nrow \<and> 0 \<le> ncol \<and> nrow * ncol = n
         then Inr (chunks (nat nrow) (nat ncol) arr)
         else if nrow = - 1 \<and> 0 < ncol \<and> n mod ncol = 0
         then Inr (chunks (nat (n div ncol)) (nat ncol) arr)
         else if ncol = - 1 \<and> 0 < nrow \<and> n mod nrow = 0
         then Inr (chunks (nat nrow) (nat (n div nrow)) arr)
         else Inl (ValueError ''total size of new array must be unchanged''))"

text \<open>
  The two branches of \<^verbatim>\<open>read_RADOLAN_composite\<close> that read and decode the payload,
  from the file position just behind the terminator: they yield the flat array and
  the clutter indices.
\<close>

definition radolan_payload ::
  "byteorder \<Rightarrow> string \<Rightarrow> nat \<Rightarrow> pydict \<Rightarrow> int \<Rightarrow> error + (int list \<times> nat list)" where
  "radolan_payload host content pos attrs NODATA =
     (let mask = (4095 :: int)
      in bind_e (dict_get attrs ''producttype'')
      (\<lambda>producttype.
      bind_e (bind_e (dict_get attrs ''nrow'') as_int)
      (\<lambda>nrow.
      bind_e (bind_e (dict_get attrs ''ncol'') as_int)
      (\<lambda>ncol.
        if producttype = PStr ''RX''
        then
          let indat = file_read content pos (nrow * ncol);
              arr = map (\<lambda>c. int (of_char c)) indat;
              arr = map (\<lambda>v. if v = 250 then NODATA else v) arr;
              clutter = np_where (\<lambda>v. v = 249) arr
          in Inr (arr, clutter)
        else
          let indat = file_read content pos (nrow * ncol * 2)
          in bind_e (frombuffer_uint16 host indat)
          (\<lambda>raw.
          let arr = map uint raw;
              nodata = np_where (\<lambda>v. v AND 8192 \<noteq> 0) arr;
              negative = np_where (\<lambda>v. v AND 16384 \<noteq> 0) arr;
              clutter = np_where (\<lambda>v. v AND 32768 \<noteq> 0) arr;
              arr = map (\<lambda>v. v AND mask) arr;
              arr = (if producttype = PStr ''RD'' then update_at negative uminus arr else arr)
          in bind_e (dict_get attrs ''precision'')
          (\<lambda>precision.
          bind_e (imul_precision arr precision)
          (\<lambda>arr.
          let arr = update_at nodata (\<lambda>v. NODATA) arr
          in Inr (arr, clutter))))))))"

text \<open>
  The body of \<^verbatim>\<open>read_RADOLAN_composite\<close> after the header loop. The result carries
  the grid, the attributes and whether the warning about a non-composite file was
  issued.
\<close>

definition radolan_decode ::
  "byteorder \<Rightarrow> string \<Rightarrow> nat \<Rightarrow> string \<Rightarrow> int \<Rightarrow> error + (int list list \<times> pydict \<times> bool)" where
  "radolan_decode host content pos header missing =
     (let NODATA = missing
      in bind_e (parse_DWD_quant_composite_header header)
      (\<lambda>attrs.
      let attrs = attrs(''nodataflag'' \<mapsto> PInt NODATA)
      in bind_e (dict_get attrs ''radarid'')
      (\<lambda>radarid.
      let warned = (radarid \<noteq> PStr ''10000'')
      in bind_e (radolan_payload host content pos attrs NODATA)
      (\<lambda>(arr, clutter).
      bind_e (bind_e (dict_get attrs ''nrow'') as_int)
      (\<lambda>nrow.
      bind_e (bind_e (dict_get attrs ''ncol'') as_int)
      (\<lambda>ncol.
      bind_e (reshape nrow ncol arr)
      (\<lambda>arr.
      let attrs = attrs(''cluttermask'' \<mapsto> PList (map (\<lambda>i. PInt (int i)) clutter))
      in Inr (arr, attrs, warned))))))))"

text \<open>\<^verbatim>\<open>read_RADOLAN_composite(fname, missing)\<close> on the bytes of the file.\<close>

definition read_RADOLAN_composite ::
  "byteorder \<Rightarrow> string \<Rightarrow> int \<Rightarrow> (error + (int list list \<times> pydict \<times> bool)) option" where
  "read_RADOLAN_composite host content missing =
     (case radolan_read_header content 0 [] of
        None \<Rightarrow> None
      | Some (header, pos) \<Rightarrow> Some (radolan_decode host content pos header missing))"

subsection \<open>Rainbow: \<^verbatim>\<open>RainbowDomNode.nodeList\<close>\<close>

text \<open>A node with its attribute dictionary and its dictionary of children: for each
  child name the list of the children of that name, in file order.\<close>

datatype RainbowDomNode =
  Node (level: int) (name: string) (nvalue: string)
       (attrMap: "string \<rightharpoonup> string") (childMap: "string \<rightharpoonup> RainbowDomNode list")

definition attr :: "RainbowDomNode \<Rightarrow> string \<Rightarrow> string option" where
  "attr self tag = (if tag \<in> dom (attrMap self) then attrMap self tag else None)"

definition hasAttr :: "RainbowDomNode \<Rightarrow> string \<Rightarrow> bool" where
  "hasAttr self tag = (let val = attr self tag in val \<noteq> None)"

text \<open>\<^verbatim>\<open>_splitTag\<close>: unpacking the result of a \<^verbatim>\<open>split\<close> into two names raises a
  \<^verbatim>\<open>ValueError\<close> unless it has exactly two parts.\<close>

definition splitTag :: "string \<Rightarrow> error + (string \<times> string option \<times> string option)" where
  "splitTag tag =
     (if CHR ''@'' \<in> set tag
      then (case py_split tag CHR ''@'' of
              [tag', attr'] \<Rightarrow>
                if CHR ''='' \<in> set attr'
                then (case py_split attr' CHR ''='' of
                        [key, attrVal] \<Rightarrow> Inr (tag', Some key, Some attrVal)
                      | _ \<Rightarrow> Inl (ValueError ''too many values to unpack''))
                else Inr (tag', Some attr', None)
            | _ \<Rightarrow> Inl (ValueError ''too many values to unpack''))
      else Inr (tag, None, None))"

text \<open>The filter of a bucket by the optional attribute test of a segment.\<close>

definition filter_bucket ::
  "string option \<Rightarrow> string option \<Rightarrow> RainbowDomNode list \<Rightarrow> RainbowDomNode list" where
  "filter_bucket attr' attrVal nodeList =
     (case attr' of
        None \<Rightarrow> nodeList
      | Some a \<Rightarrow>
          (case attrVal of
             Some v \<Rightarrow> filter (\<lambda>n. attr n a = Some v) nodeList
           | None \<Rightarrow> filter (\<lambda>n. hasAttr n a) nodeList))"

text \<open>The loop of \<^verbatim>\<open>nodeList\<close> over the path's segments, with \<open>curNode\<close> and
  \<open>nodeList\<close> passed along; \<^verbatim>\<open>break\<close> and \<^verbatim>\<open>return\<close> end it.\<close>

fun nodeList_loop ::
  "string list \<Rightarrow> RainbowDomNode \<Rightarrow> RainbowDomNode list \<Rightarrow> error + RainbowDomNode list" where
  "nodeList_loop [] curNode nodeList = Inr nodeList"
| "nodeList_loop (tag # tagList) curNode nodeList =
     bind_e (splitTag tag)
     (\<lambda>(tag, attr', attrVal).
       case childMap curNode tag of
         None \<Rightarrow> Inr []
       | Some children \<Rightarrow>
           let nodeList = filter_bucket attr' attrVal children
           in if length nodeList = 0 then Inr nodeList
              else nodeList_loop tagList (nodeList ! 0) nodeList)"

definition nodeList :: "RainbowDomNode \<Rightarrow> string \<Rightarrow> error + RainbowDomNode list" where
  "nodeList self path = nodeList_loop (py_split path CHR ''/'') self []"

subsection \<open>Reference readings used in the statements\<close>

text \<open>
  The path query as the specification words it: a segment is a child name with an
  optional attribute test; the matches of a segment at a node are the nodes of the
  bucket of that name that pass the test; an intermediate segment resolves to the
  first match, the terminal segment returns all matches.
\<close>

type_synonym segment = "string \<times> string option \<times> string option"

definition seg_test :: "segment \<Rightarrow> RainbowDomNode \<Rightarrow> bool" where
  "seg_test sg n =
     (case fst (snd sg) of
        None \<Rightarrow> True
      | Some a \<Rightarrow>
          (case snd (snd sg) of
             None \<Rightarrow> attrMap n a \<noteq> None
           | Some v \<Rightarrow> attrMap n a = Some v))"

definition seg_matches :: "RainbowDomNode \<Rightarrow> segment \<Rightarrow> RainbowDomNode list" where
  "seg_matches n sg =
     (case childMap n (fst sg) of None \<Rightarrow> [] | Some bucket \<Rightarrow> filter (seg_test sg) bucket)"

fun path_query :: "RainbowDomNode \<Rightarrow> segment list \<Rightarrow> RainbowDomNode list" where
  "path_query n [] = []"
| "path_query n [sg] = seg_matches n sg"
| "path_query n (sg # sgs) =
     (case seg_matches n sg of [] \<Rightarrow> [] | m # _ \<Rightarrow> path_query m sgs)"

text \<open>
  The written form of a path, as the specification words it: segments joined by
  slashes, a segment being a name, a name with \<^verbatim>\<open>@attr\<close>, or a name with
  \<^verbatim>\<open>@attr=value\<close>. The name holds no slash and no \<^verbatim>\<open>@\<close>, the attribute and the value
  no slash, \<^verbatim>\<open>@\<close> nor \<^verbatim>\<open>=\<close>.
\<close>

definition free_of :: "string \<Rightarrow> string \<Rightarrow> bool" where
  "free_of special s = list_all (\<lambda>c. c \<notin> set special) s"

definition segment_ok :: "segment \<Rightarrow> bool" where
  "segment_ok sg =
     (case sg of
        (n, None, None) \<Rightarrow> free_of ''/@'' n
      | (n, None, Some v) \<Rightarrow> False
      | (n, Some a, None) \<Rightarrow> free_of ''/@'' n \<and> free_of ''/@='' a
      | (n, Some a, Some v) \<Rightarrow> free_of ''/@'' n \<and> free_of ''/@='' a \<and> free_of ''/@='' v)"

definition segment_text :: "segment \<Rightarrow> string" where
  "segment_text sg =
     (case sg of
        (n, None, _) \<Rightarrow> n
      | (n, Some a, None) \<Rightarrow> n @ ''@'' @ a
      | (n, Some a, Some v) \<Rightarrow> n @ ''@'' @ a @ ''='' @ v)"

fun path_text :: "segment list \<Rightarrow> string" where
  "path_text [] = []"
| "path_text [sg] = segment_text sg"
| "path_text (sg # sgs) = segment_text sg @ ''/'' @ path_text sgs"

text \<open>The per-value reading of the packing (the commented ``naive version'' of the
  source, without its masking of plain values): a flagged value stands for as many
  zero bins as its low 12 bits say, any other value for itself.\<close>

definition expand :: "16 word \<Rightarrow> 16 word list" where
  "expand v = (if v AND 4096 \<noteq> 0 then replicate (unat (v AND 4095)) 0 else [v])"

definition expand_all :: "16 word list \<Rightarrow> 16 word list" where
  "expand_all raw = concat (map expand raw)"

text \<open>Two abbreviations for the proofs about \<^verbatim>\<open>unpackDX\<close>: what one round of its loop
  appends, and the beam it builds from the list of flagged positions.\<close>

definition seg :: "16 word list \<Rightarrow> 16 word \<Rightarrow> nat \<times> nat \<Rightarrow> 16 word list" where
  "seg raw data p = replicate (unat (raw ! fst p AND data)) 0
                     @ take (snd p - (fst p + 1)) (drop (fst p + 1) raw)"

definition unpacked :: "16 word list \<Rightarrow> nat list \<Rightarrow> 16 word list" where
  "unpacked raw ps =
     take (hd ps) raw @ concat (map (seg raw 4095) (zip (butlast ps) (tl ps)))
       @ replicate (unat (raw ! last ps AND 4095)) 0 @ drop (last ps + 1) raw"

text \<open>Outcomes of a call that may raise: it raises a \<^verbatim>\<open>ValueError\<close>; it raises nothing
  but, possibly, a \<^verbatim>\<open>ValueError\<close>.\<close>

definition raises_ValueError :: "error + 'a \<Rightarrow> bool" where
  "raises_ValueError r = (\<exists>msg. r = Inl (ValueError msg))"

definition ValueError_or_value :: "error + 'a \<Rightarrow> bool" where
  "ValueError_or_value r =
     (case r of Inl e \<Rightarrow> (\<exists>msg. e = ValueError msg) | Inr x \<Rightarrow> True)"

subsection \<open>Sample inputs\<close>

text \<open>DX headers (without the terminator): day 01, 12:00, radar 10488, June 2008;
  one lacks the \<^verbatim>\<open>VS\<close> field, one the \<^verbatim>\<open>BY\<close> field.\<close>

definition dx_header_no_VS :: string where
  "dx_header_no_VS =
     ''DX011200104880608BY00100CO0CD0CS0EP0.80.80.80.80.80.80.80.8MS003abc''"

definition dx_header_no_BY :: string where
  "dx_header_no_BY =
     ''DX011200104880608VS 2CO0CD0CS0EP0.80.80.80.80.80.80.80.8MS003abc''"

text \<open>A DX file of 88 bytes: a header of 72 bytes (terminator included) and one beam,
  the marker 8192, azimuth 100, elevation 5 and the five plain bins 1, 2, 3, 4, 5.\<close>

definition dx_file_plain_beam :: string where
  "dx_file_plain_beam =
     ''DX011200104880608BY00088VS 2CO0CD0CS0EP0.80.80.80.80.80.80.80.8MS003abc''
     @ [CHR 0x03,
        CHR 0x00, CHR 0x20, CHR 0x64, CHR 0x00, CHR 0x05, CHR 0x00,
        CHR 0x01, CHR 0x00, CHR 0x02, CHR 0x00, CHR 0x03, CHR 0x00,
        CHR 0x04, CHR 0x00, CHR 0x05, CHR 0x00]"

text \<open>A DX file of 92 bytes: a header of 73 bytes (terminator included) and 19 bytes
  of payload, namely one beam (marker, azimuth 100, elevation 5, the bins 1, 2, a run
  of three zeros, 3, 4, 5) and one more byte.\<close>

definition dx_file_odd_header :: string where
  "dx_file_odd_header =
     ''DX011200104880608BY00092VS 2CO0CD0CS0EP0.80.80.80.80.80.80.80.8MS004abcd''
     @ [CHR 0x03,
        CHR 0x00, CHR 0x20, CHR 0x64, CHR 0x00, CHR 0x05, CHR 0x00,
        CHR 0x01, CHR 0x00, CHR 0x02, CHR 0x00, CHR 0x03, CHR 0x10,
        CHR 0x03, CHR 0x00, CHR 0x04, CHR 0x00, CHR 0x05, CHR 0x00,
        CHR 0x7A]"

text \<open>A file cut off inside the header, before any terminator.\<close>

definition file_truncated :: string where
  "file_truncated = ''DX011200104880608BY00095VS 2CO0''"

text \<open>RADOLAN files with a 2 x 2 grid: an RX file with the bytes 10, 20, 250, 249; an
  RW file (precision \<^verbatim>\<open>E-01\<close>) with the 16-bit values 5, 10, 4095 and 8192; an RX file
  of the single radar 10488.\<close>

definition radolan_rx_file :: string where
  "radolan_rx_file =
     ''RX011950100000814BY     150VS 3SW   2.13.1PR E+00INT   5GP   2x   2MS  5<boo>''
     @ [CHR 0x03, CHR 0x0A, CHR 0x14, CHR 0xFA, CHR 0xF9]"

definition radolan_rw_file :: string where
  "radolan_rw_file =
     ''RW011950100000814BY     154VS 3SW   2.13.1PR E-01INT  60GP   2x   2MS  5<boo>''
     @ [CHR 0x03, CHR 0x05, CHR 0x00, CHR 0x0A, CHR 0x00,
        CHR 0xFF, CHR 0x0F, CHR 0x00, CHR 0x20]"

definition radolan_single_radar_file :: string where
  "radolan_single_radar_file =
     ''RX011950104880814BY     150VS 3SW   2.13.1PR E+00INT   5GP   2x   2MS  5<boo>''
     @ [CHR 0x03, CHR 0x0A, CHR 0x14, CHR 0x1E, CHR 0x28]"

text \<open>A Rainbow tree with three \<^verbatim>\<open>scan\<close> children of the same name, two of them of
  type \<^verbatim>\<open>b\<close>, each with its own \<^verbatim>\<open>ray\<close> children.\<close>

definition ray :: "string \<Rightarrow> RainbowDomNode" where
  "ray v = Node 2 ''ray'' v Map.empty Map.empty"

definition scan :: "string \<Rightarrow> RainbowDomNode list \<Rightarrow> RainbowDomNode" where
  "scan ty rays = Node 1 ''scan'' [] [''type'' \<mapsto> ty] [''ray'' \<mapsto> rays]"

definition volume :: RainbowDomNode where
  "volume = Node 0 ''volume'' [] Map.empty
     [''scan'' \<mapsto> [scan ''a'' [ray ''r0''],
                   scan ''b'' [ray ''r1'', ray ''r2''],
                   scan ''b'' [ray ''r3'']]]"

text \<open>The same tree, but its first \<^verbatim>\<open>scan\<close> has no attribute at all.\<close>

definition bare_scan :: "RainbowDomNode list \<Rightarrow> RainbowDomNode" where
  "bare_scan rays = Node 1 ''scan'' [] Map.empty [''ray'' \<mapsto> rays]"

definition volume_mixed :: RainbowDomNode where
  "volume_mixed = Node 0 ''volume'' [] Map.empty
     [''scan'' \<mapsto> [bare_scan [ray ''r0''],
                   scan ''b'' [ray ''r1'', ray ''r2''],
                   scan ''b'' [ray ''r3'']]]"

section \<open>Properties\<close>

subsection \<open>Sequencing\<close>

lemma bind_e_Inr: "bind_e m f = Inr y \<Longrightarrow> \<exists>x. m = Inr x \<and> f x = Inr y"
  by (cases m) (simp_all add: bind_e_def)

lemma traverse_Cons_Inr:
  assumes "traverse f (x # xs) = Inr ys"
  shows "\<exists>y ys'. f x = Inr y \<and> traverse f xs = Inr ys' \<and> ys = y # ys'"
  using assms by (auto dest!: bind_e_Inr)

lemma bind_raises:
  "ValueError_or_value m \<Longrightarrow> (\<And>x. raises_ValueError (f x)) \<Longrightarrow> raises_ValueError (bind_e m f)"
  by (cases m) (auto simp: bind_e_def raises_ValueError_def ValueError_or_value_def)

lemma bind_raises_first: "raises_ValueError m \<Longrightarrow> raises_ValueError (bind_e m f)"
  by (auto simp: bind_e_def raises_ValueError_def)

lemma traverse_raises_first:
  "raises_ValueError (f x) \<Longrightarrow> raises_ValueError (traverse f (x # xs))"
  by (auto simp: raises_ValueError_def bind_e_def)

lemma traverse_ve:
  "(\<And>x. ValueError_or_value (f x)) \<Longrightarrow> ValueError_or_value (traverse f xs)"
proof (induction xs)
  case Nil
  show ?case by (simp add: ValueError_or_value_def)
next
  case (Cons x xs)
  from Cons.prems have a: "ValueError_or_value (f x)" .
  from Cons have b: "ValueError_or_value (traverse f xs)" by simp
  show ?case
    using a b by (auto simp: bind_e_def ValueError_or_value_def split: sum.splits)
qed

subsection \<open>\<^verbatim>\<open>unpackDX\<close>\<close>

lemma where_flag_snoc:
  "where_flag (raw @ [x]) flag =
     where_flag raw flag @ (if x AND flag \<noteq> 0 then [length raw] else [])"
proof -
  have "filter (\<lambda>i. (raw @ [x]) ! i AND flag \<noteq> 0) [0..<length raw] =
        filter (\<lambda>i. raw ! i AND flag \<noteq> 0) [0..<length raw]"
    by (rule filter_cong) (auto simp: nth_append)
  then show ?thesis
    by (simp add: where_flag_def)
qed

lemma where_flag_less: "i \<in> set (where_flag raw flag) \<Longrightarrow> i < length raw"
  by (simp add: where_flag_def)

lemma where_flag_empty:
  "where_flag raw flag = [] \<longleftrightarrow> \<not> (\<exists>v \<in> set raw. v AND flag \<noteq> 0)"
proof -
  have "(\<exists>i < length raw. raw ! i AND flag \<noteq> 0) \<longleftrightarrow> (\<exists>v \<in> set raw. v AND flag \<noteq> 0)"
    by (metis in_set_conv_nth)
  then show ?thesis
    by (auto simp: where_flag_def filter_empty_conv)
qed

lemma unpack_loop_concat:
  "unpack_loop raw data ps beam = beam @ concat (map (seg raw data) ps)"
  by (induction ps arbitrary: beam) (auto simp: seg_def)

lemma unpackDX_unpacked:
  "unpackDX raw =
     (if where_flag raw 4096 = []
      then (if length raw = 128 then Inr raw else Inl AssertionError)
      else Inr (unpacked raw (where_flag raw 4096)))"
  by (simp add: unpackDX_def Let_def unpack_loop_concat unpacked_def)

lemma expand_all_snoc: "expand_all (raw @ [x]) = expand_all raw @ expand x"
  by (simp add: expand_all_def)

lemma expand_all_unflagged: "where_flag raw 4096 = [] \<Longrightarrow> expand_all raw = raw"
proof (induction raw rule: rev_induct)
  case Nil
  show ?case by (simp add: expand_all_def)
next
  case (snoc x raw)
  then show ?case
    by (auto simp: where_flag_snoc expand_all_snoc expand_def split: if_splits)
qed

lemma seg_snoc:
  assumes "fst p < length raw" "snd p \<le> length raw"
  shows "seg (raw @ [x]) data p = seg raw data p"
  using assms by (simp add: seg_def nth_append)

lemma zip_members:
  assumes "p \<in> set (zip (butlast ps) (tl ps))"
  shows "fst p \<in> set ps \<and> snd p \<in> set ps"
proof -
  obtain a b where p: "p = (a, b)" by (cases p)
  with assms have "a \<in> set (butlast ps)" "b \<in> set (tl ps)"
    by (auto dest: set_zip_leftD set_zip_rightD)
  then have "a \<in> set ps" "b \<in> set ps"
    by (auto dest: in_set_butlastD list.set_sel(2)[rotated])
  with p show ?thesis by simp
qed

lemma map_seg_snoc:
  assumes "\<forall>i \<in> set ps. i < length raw"
  shows "map (seg (raw @ [x]) 4095) (zip (butlast ps) (tl ps)) =
         map (seg raw 4095) (zip (butlast ps) (tl ps))"
proof (rule map_cong[OF refl])
  fix p assume "p \<in> set (zip (butlast ps) (tl ps))"
  then have "fst p \<in> set ps \<and> snd p \<in> set ps" by (rule zip_members)
  with assms have "fst p < length raw" "snd p \<le> length raw" by auto
  then show "seg (raw @ [x]) 4095 p = seg raw 4095 p" by (rule seg_snoc)
qed

lemma unpacked_snoc_plain:
  assumes "ps \<noteq> []" "\<forall>i \<in> set ps. i < length raw"
  shows "unpacked (raw @ [x]) ps = unpacked raw ps @ [x]"
proof -
  have h: "hd ps < length raw" and l: "last ps < length raw"
    using assms by auto
  note m = map_seg_snoc[OF assms(2)]
  show ?thesis
    using h l by (simp add: unpacked_def nth_append m)
qed

lemma unpacked_snoc_flag:
  assumes "ps \<noteq> []" "\<forall>i \<in> set ps. i < length raw"
  shows "unpacked (raw @ [x]) (ps @ [length raw]) =
         unpacked raw ps @ replicate (unat (x AND 4095)) 0"
proof -
  have h: "hd ps < length raw" and l: "last ps < length raw"
    using assms by auto
  have z: "zip ps (tl ps @ [length raw]) =
           zip (butlast ps) (tl ps) @ [(last ps, length raw)]"
  proof -
    have "zip (butlast ps @ [last ps]) (tl ps @ [length raw]) =
          zip (butlast ps) (tl ps) @ zip [last ps] [length raw]"
      by (rule zip_append) simp
    with assms(1) show ?thesis by simp
  qed
  note m = map_seg_snoc[OF assms(2)]
  have s: "seg (raw @ [x]) 4095 (last ps, length raw) =
           replicate (unat (raw ! last ps AND 4095)) 0 @ drop (last ps + 1) raw"
    using l by (simp add: seg_def nth_append)
  show ?thesis
    using h l assms(1) by (simp add: unpacked_def z m s nth_append)
qed

lemma unpacked_expand_all:
  "where_flag raw 4096 \<noteq> [] \<Longrightarrow> unpacked raw (where_flag raw 4096) = expand_all raw"
proof (induction raw rule: rev_induct)
  case Nil
  then show ?case by (simp add: where_flag_def)
next
  case (snoc x raw)
  let ?ps = "where_flag raw 4096"
  have lt: "\<forall>i \<in> set ?ps. i < length raw"
    by (simp add: where_flag_less)
  show ?case
  proof (cases "x AND 4096 \<noteq> 0")
    case False
    then have ps: "where_flag (raw @ [x]) 4096 = ?ps"
      by (simp add: where_flag_snoc)
    with snoc.prems have ne: "?ps \<noteq> []" by simp
    show ?thesis
      using False snoc.IH[OF ne] unpacked_snoc_plain[OF ne lt]
      by (simp add: ps expand_all_snoc expand_def)
  next
    case True
    then have ps: "where_flag (raw @ [x]) 4096 = ?ps @ [length raw]"
      by (simp add: where_flag_snoc)
    show ?thesis
    proof (cases "?ps = []")
      case True
      then have "expand_all raw = raw" by (rule expand_all_unflagged)
      with True \<open>x AND 4096 \<noteq> 0\<close> show ?thesis
        by (simp add: ps unpacked_def expand_all_snoc expand_def)
    next
      case False
      show ?thesis
        using \<open>x AND 4096 \<noteq> 0\<close> snoc.IH[OF False] unpacked_snoc_flag[OF False lt]
        by (simp add: ps expand_all_snoc expand_def)
    qed
  qed
qed

text \<open>With a flagged value in it, or with exactly 128 values, a sequence is unpacked
  as the per-value reading says.\<close>

lemma unpackDX_flagged:
  "(\<exists>v \<in> set raw. v AND 4096 \<noteq> 0) \<or> length raw = 128 \<Longrightarrow>
     unpackDX raw = Inr (expand_all raw)"
  by (auto simp: unpackDX_unpacked where_flag_empty unpacked_expand_all expand_all_unflagged)

text \<open>
  C8. Whenever \<^verbatim>\<open>unpackDX\<close> returns, it returns the values in order, each flagged
  value replaced by as many zero bins as its low 12 bits say and each unflagged value
  kept once as it is; and it does return for every sequence that holds a flagged
  value. But a sequence of plain values only, such as 7, 8, 9, 10, 11, is not
  emitted at all unless it has 128 values: the size assertion stops the call.
\<close>

theorem unpackDX_expand_all:
  "(unpackDX raw = Inr beam \<longrightarrow> beam = expand_all raw) \<and>
   ((\<exists>v \<in> set raw. v AND 4096 \<noteq> 0) \<longrightarrow> unpackDX raw = Inr (expand_all raw)) \<and>
   unpackDX [7, 8, 9, 10, 11] = Inl AssertionError \<and>
   expand_all [7, 8, 9, 10, 11] = [7, 8, 9, 10, 11]"
proof (intro conjI impI)
  assume r: "unpackDX raw = Inr beam"
  show "beam = expand_all raw"
  proof (cases "where_flag raw 4096 = []")
    case True
    with r have "beam = raw"
      by (simp add: unpackDX_unpacked split: if_splits)
    with True show ?thesis by (simp add: expand_all_unflagged)
  next
    case False
    with r show ?thesis
      by (simp add: unpackDX_unpacked unpacked_expand_all)
  qed
next
  assume "\<exists>v \<in> set raw. v AND 4096 \<noteq> 0"
  then show "unpackDX raw = Inr (expand_all raw)"
    by (simp add: unpackDX_flagged)
next
  show "unpackDX [7, 8, 9, 10, 11] = Inl AssertionError"
    by (simp add: unpackDX_unpacked where_flag_def)
next
  show "expand_all [7, 8, 9, 10, 11] = [7, 8, 9, 10, 11]"
    by (simp add: expand_all_def expand_def)
qed

text \<open>Five plain bins with a run of three zeros after the second one: a beam of
  length 8 with the three zeros in that place.\<close>

theorem unpackDX_expand_all_witness:
  "(\<exists>v \<in> set [10, 20, 4099, 30, 40, 50 :: 16 word]. v AND 4096 \<noteq> 0) \<and>
   unpackDX [10, 20, 4099, 30, 40, 50] = Inr [10, 20, 0, 0, 0, 30, 40, 50]"
proof -
  have h: "\<exists>v \<in> set [10, 20, 4099, 30, 40, 50 :: 16 word]. v AND 4096 \<noteq> 0"
    by simp
  have e: "expand_all [10, 20, 4099, 30, 40, 50] = [10, 20, 0, 0, 0, 30, 40, 50]"
    by code_simp
  from unpackDX_expand_all [of "[10, 20, 4099, 30, 40, 50]"] h
  have "unpackDX [10, 20, 4099, 30, 40, 50] = Inr (expand_all [10, 20, 4099, 30, 40, 50])"
    by blast
  with h e show ?thesis by simp
qed

subsection \<open>\<^verbatim>\<open>get_RB_data_layout\<close>\<close>

text \<open>The depths 8, 16 and 32 give the widths 1, 2 and 4, with the byte order that is
  not the host's; the depths that raise are those whose eighth, rounded down, is not
  1, 2 or 4.\<close>

lemma get_RB_data_layout_widths:
  "get_RB_data_layout host 8 = Inr (1, (if host = Little then ''>'' else ''<'') @ ''u1'')"
  "get_RB_data_layout host 16 = Inr (2, (if host = Little then ''>'' else ''<'') @ ''u2'')"
  "get_RB_data_layout host 32 = Inr (4, (if host = Little then ''>'' else ''<'') @ ''u4'')"
  by (cases host; simp add: get_RB_data_layout_def str_int_def)+

lemma get_RB_data_layout_raises:
  "isl (get_RB_data_layout host datadepth) \<longleftrightarrow>
     \<not> (8 \<le> datadepth \<and> datadepth < 24 \<or> 32 \<le> datadepth \<and> datadepth < 40)"
proof -
  have "datadepth div 8 = 1 \<longleftrightarrow> 8 \<le> datadepth \<and> datadepth < 16" by presburger
  moreover have "datadepth div 8 = 2 \<longleftrightarrow> 16 \<le> datadepth \<and> datadepth < 24" by presburger
  moreover have "datadepth div 8 = 4 \<longleftrightarrow> 32 \<le> datadepth \<and> datadepth < 40" by presburger
  ultimately show ?thesis
    by (auto simp: get_RB_data_layout_def Let_def)
qed

text \<open>C3. \<^verbatim>\<open>get_RB_data_layout\<close> accepts a depth of 9 bits: the integer division
  maps it to width 1, so no error is raised (on a little-endian host the layout
  is \<^verbatim>\<open>(1, '>u1')\<close>).\<close>

theorem get_RB_data_layout_depth_9:
  "get_RB_data_layout Little 9 = Inr (1, ''>u1'')"
  by (simp add: get_RB_data_layout_def str_int_def)

subsection \<open>The header loops\<close>

lemma take1_no_terminator:
  "CHR 0x03 \<notin> set content \<Longrightarrow> take 1 (drop pos content) \<noteq> [CHR 0x03]"
proof
  assume a: "CHR 0x03 \<notin> set content" and b: "take 1 (drop pos content) = [CHR 0x03]"
  have "set (take 1 (drop pos content)) \<subseteq> set content"
    by (meson set_take_subset set_drop_subset subset_trans)
  with b have "CHR 0x03 \<in> set content" by auto
  with a show False by simp
qed

text \<open>If the DX loop returns, it has seen a terminator: by induction on the
  unfolding of the loop.\<close>

lemma dx_read_header_returns:
  assumes "dx_read_header content pos header atend = Some h"
  shows "atend \<or> CHR 0x03 \<in> set content"
proof (rule dx_read_header.raw_induct
         [where P = "\<lambda>c p hd a y. a \<or> CHR 0x03 \<in> set c", OF _ assms])
  fix f c p hd a y
  assume IH: "\<And>c p hd a y. f c p hd a = Some y \<Longrightarrow> a \<or> CHR 0x03 \<in> set c"
    and eq: "(let mychar = take 1 (drop p c);
                  atend = if mychar = [CHR 0x03] then True else a
              in if mychar \<noteq> [CHR 0x03] \<and> atend then Some hd
                 else f c (p + length mychar) (hd @ mychar) atend) = Some y"
  show "a \<or> CHR 0x03 \<in> set c"
  proof (rule ccontr)
    assume "\<not> (a \<or> CHR 0x03 \<in> set c)"
    then have a: "\<not> a" and c: "CHR 0x03 \<notin> set c" by simp_all
    from c have t: "take 1 (drop p c) \<noteq> [CHR 0x03]"
      by (rule take1_no_terminator)
    from eq a t
    have "f c (p + length (take 1 (drop p c))) (hd @ take 1 (drop p c)) False = Some y"
      by (simp add: Let_def)
    then have "False \<or> CHR 0x03 \<in> set c" by (rule IH)
    with c show False by simp
  qed
qed

lemma dx_read_header_diverges:
  assumes "CHR 0x03 \<notin> set content"
  shows "dx_read_header content pos header False = None"
proof (cases "dx_read_header content pos header False")
  case None
  then show ?thesis .
next
  case (Some h)
  then have "False \<or> CHR 0x03 \<in> set content" by (rule dx_read_header_returns)
  with assms show ?thesis by simp
qed

lemma radolan_read_header_returns:
  assumes "radolan_read_header content pos header = Some r"
  shows "CHR 0x03 \<in> set content"
proof (rule radolan_read_header.raw_induct
         [where P = "\<lambda>c p hd y. CHR 0x03 \<in> set c", OF _ assms])
  fix f c p hd y
  assume IH: "\<And>c p hd y. f c p hd = Some y \<Longrightarrow> CHR 0x03 \<in> set c"
    and eq: "(let mychar = take 1 (drop p c)
              in if mychar = [CHR 0x03] then Some (hd, p + length mychar)
                 else f c (p + length mychar) (hd @ mychar)) = Some y"
  show "CHR 0x03 \<in> set c"
  proof (rule ccontr)
    assume c: "CHR 0x03 \<notin> set c"
    then have t: "take 1 (drop p c) \<noteq> [CHR 0x03]"
      by (rule take1_no_terminator)
    from eq t
    have "f c (p + length (take 1 (drop p c))) (hd @ take 1 (drop p c)) = Some y"
      by (simp add: Let_def)
    then have "CHR 0x03 \<in> set c" by (rule IH)
    with c show False by simp
  qed
qed

lemma radolan_read_header_diverges:
  assumes "CHR 0x03 \<notin> set content"
  shows "radolan_read_header content pos header = None"
proof (cases "radolan_read_header content pos header")
  case None
  then show ?thesis .
next
  case (Some r)
  then have "CHR 0x03 \<in> set content" by (rule radolan_read_header_returns)
  with assms show ?thesis by simp
qed

text \<open>
  C6. On a file that holds no terminator byte 0x03 neither \<^verbatim>\<open>readDX\<close> nor
  \<^verbatim>\<open>read_RADOLAN_composite\<close> returns or raises: at the end of the file \<^verbatim>\<open>f.read(1)\<close>
  yields the empty string for ever and the header loop never ends.
\<close>

theorem header_scan_never_returns:
  "CHR 0x03 \<notin> set content \<Longrightarrow>
     readDX host content = None \<and> read_RADOLAN_composite host content missing = None"
  by (simp add: readDX_def read_RADOLAN_composite_def dx_read_header_diverges
        radolan_read_header_diverges)

theorem header_scan_never_returns_witness:
  "CHR 0x03 \<notin> set file_truncated \<and>
   readDX Little file_truncated = None \<and>
   read_RADOLAN_composite Little file_truncated (- 9999) = None"
proof -
  have h: "CHR 0x03 \<notin> set file_truncated" by (simp add: file_truncated_def)
  show ?thesis
    using h header_scan_never_returns [OF h, of Little "- 9999"] by simp
qed

subsection \<open>\<^verbatim>\<open>read_RADOLAN_composite\<close>\<close>

text \<open>The header parser never stores a \<^verbatim>\<open>radarid\<close>.\<close>

lemma parse_DWD_no_radarid:
  assumes "parse_DWD_quant_composite_header header = Inr out"
  shows "out ''radarid'' = None"
  using assms
  unfolding parse_DWD_quant_composite_header_def Let_def
  by (auto dest!: bind_e_Inr split: if_splits option.splits)

lemma radolan_decode_raises:
  "radolan_decode host content pos header missing =
     Inl (case parse_DWD_quant_composite_header header of
            Inl e \<Rightarrow> e
          | Inr out \<Rightarrow> KeyError ''radarid'')"
proof (cases "parse_DWD_quant_composite_header header")
  case (Inl e)
  then show ?thesis by (simp add: radolan_decode_def bind_e_def)
next
  case (Inr out)
  then have "out ''radarid'' = None" by (rule parse_DWD_no_radarid)
  with Inr show ?thesis
    by (simp add: radolan_decode_def bind_e_def dict_get_def)
qed

lemma read_RADOLAN_composite_raises:
  "read_RADOLAN_composite host content missing =
     map_option
       (\<lambda>(header, pos). Inl (case parse_DWD_quant_composite_header header of
                               Inl e \<Rightarrow> e
                             | Inr out \<Rightarrow> KeyError ''radarid''))
       (radolan_read_header content 0 [])"
  by (simp add: read_RADOLAN_composite_def radolan_decode_raises split: option.splits)

text \<open>
  C1. No call of \<^verbatim>\<open>read_RADOLAN_composite\<close> returns a grid: the attributes built by
  \<^verbatim>\<open>parse_DWD_quant_composite_header\<close> have no key \<^verbatim>\<open>radarid\<close>, so the test of the
  radar id raises a \<^verbatim>\<open>KeyError\<close> before any warning or decoding. The file of the single
  radar 10488, whose header parses, is an instance.
\<close>

theorem read_RADOLAN_composite_never_returns:
  "read_RADOLAN_composite host content missing \<noteq> Some (Inr result) \<and>
   map_option (\<lambda>(header, pos). (py_slice header 8 13, isl (parse_DWD_quant_composite_header header)))
     (radolan_read_header radolan_single_radar_file 0 []) = Some (''10488'', False) \<and>
   read_RADOLAN_composite Little radolan_single_radar_file (- 9999)
     = Some (Inl (KeyError ''radarid''))"
proof -
  have p: "map_option (\<lambda>(header, pos). (py_slice header 8 13, isl (parse_DWD_quant_composite_header header)))
     (radolan_read_header radolan_single_radar_file 0 []) = Some (''10488'', False)"
    by code_simp
  then show ?thesis
    by (auto simp: read_RADOLAN_composite_raises split: sum.splits)
qed

text \<open>The RX branch by itself, on attributes that do name the product: the bytes 10,
  20, 250, 249 of the sample file behind position 78.\<close>

lemma radolan_payload_RX_block:
  "radolan_payload Little radolan_rx_file 78
     [''producttype'' \<mapsto> PStr ''RX'', ''nrow'' \<mapsto> PInt 2, ''ncol'' \<mapsto> PInt 2] (- 9999)
   = Inr ([10, 20, - 9999, 249], [3]) \<and>
   reshape 2 2 [10, 20, - 9999, 249 :: int] = Inr [[10, 20], [- 9999, 249]]"
  by code_simp

text \<open>
  C9. On the RX file with the bytes 10, 20, 250, 249 the header parses, and the call
  raises \<^verbatim>\<open>KeyError: 'radarid'\<close> instead of returning the grid and the clutter
  indices.
\<close>

theorem read_RADOLAN_composite_RX_example:
  "map_option (\<lambda>(header, pos). (pos, isl (parse_DWD_quant_composite_header header)))
     (radolan_read_header radolan_rx_file 0 []) = Some (78, False) \<and>
   read_RADOLAN_composite Little radolan_rx_file (- 9999) = Some (Inl (KeyError ''radarid''))"
proof -
  have p: "map_option (\<lambda>(header, pos). (pos, isl (parse_DWD_quant_composite_header header)))
     (radolan_read_header radolan_rx_file 0 []) = Some (78, False)"
    by code_simp
  then show ?thesis
    by (auto simp: read_RADOLAN_composite_raises split: sum.splits)
qed

text \<open>The 16-bit branch by itself, on the values 5, 10, 4095 and 8192 of the RW sample
  file: with the integer factor 10 it yields the products, with the factor
  \<open>1/10\<close> of the header (\<^verbatim>\<open>PR E-01\<close>) the integer array keeps 0, 1 and 409.\<close>

lemma radolan_payload_RW_block:
  "radolan_payload Little radolan_rw_file 78
     [''producttype'' \<mapsto> PStr ''RW'', ''nrow'' \<mapsto> PInt 2, ''ncol'' \<mapsto> PInt 2,
      ''precision'' \<mapsto> py_pow10 1] (- 9999)
   = Inr ([50, 100, 40950, - 9999], []) \<and>
   radolan_payload Little radolan_rw_file 78
     [''producttype'' \<mapsto> PStr ''RW'', ''nrow'' \<mapsto> PInt 2, ''ncol'' \<mapsto> PInt 2,
      ''precision'' \<mapsto> py_pow10 (- 1)] (- 9999)
   = Inr ([0, 1, 409, - 9999], [])"
  by code_simp

text \<open>
  C7. On the RW file with the values 5, 10, 4095 and 8192 the header parses (precision
  \<open>1/10\<close>), and the call raises \<^verbatim>\<open>KeyError: 'radarid'\<close> instead of returning the scaled
  grid.
\<close>

theorem read_RADOLAN_composite_RW_example:
  "map_option (\<lambda>(header, pos).
       (pos, map_sum id (\<lambda>out. out ''precision'') (parse_DWD_quant_composite_header header)))
     (radolan_read_header radolan_rw_file 0 []) = Some (78, Inr (Some (PFloat (Finite (1 / 10))))) \<and>
   read_RADOLAN_composite Little radolan_rw_file (- 9999) = Some (Inl (KeyError ''radarid''))"
proof -
  have p: "map_option (\<lambda>(header, pos).
       (pos, map_sum id (\<lambda>out. out ''precision'') (parse_DWD_quant_composite_header header)))
     (radolan_read_header radolan_rw_file 0 []) = Some (78, Inr (Some (PFloat (Finite (1 / 10)))))"
    by code_simp
  then show ?thesis
    by (auto simp: read_RADOLAN_composite_raises split: sum.splits)
qed

subsection \<open>\<^verbatim>\<open>parse_DX_header\<close>\<close>

lemma strptime_ve: "ValueError_or_value (strptime_dHMmyS s)"
  by (auto simp: strptime_dHMmyS_def ValueError_or_value_def Let_def
           split: list.splits prod.splits)

lemma int_of_str_ve: "ValueError_or_value (int_of_str s)"
  by (auto simp: int_of_str_def ValueError_or_value_def split: option.splits)

lemma float_of_str_ve: "ValueError_or_value (float_of_str s)"
  by (auto simp: float_of_str_def ValueError_or_value_def split: option.splits)

text \<open>A slice from index 1 of a header that begins with \<^verbatim>\<open>DX\<close> begins with \<^verbatim>\<open>X\<close>, which
  neither \<^verbatim>\<open>int\<close> nor \<^verbatim>\<open>float\<close> accepts.\<close>

lemma slice_from_1:
  assumes "take 2 header = ''DX''" "2 \<le> k"
  shows "\<exists>r. py_slice header 1 k = CHR ''X'' # r"
proof -
  from assms(1) obtain rest where h: "header = CHR ''D'' # CHR ''X'' # rest"
    by (cases header; cases "tl header") (auto split: if_splits)
  have "slice_bound (length header) 1 = 1"
    by (simp add: slice_bound_def h)
  moreover have "2 \<le> slice_bound (length header) k"
    using assms(2) by (simp add: slice_bound_def h)
  ultimately show ?thesis
    by (cases "slice_bound (length header) k - 1") (auto simp: py_slice_def h)
qed

lemma py_int_X: "py_int (CHR ''X'' # r) = None"
  by (simp add: py_int_def is_space_def is_digit_def Let_def)

lemma strip_with_keeps_head:
  assumes "\<not> p c"
  shows "\<exists>r'. strip_with p (c # r) = c # r'"
proof -
  have "\<exists>ys. dropWhile p (rev r @ [c]) = ys @ [c]"
    using assms by (simp add: dropWhile_append)
  then obtain ys where "dropWhile p (rev r @ [c]) = ys @ [c]" ..
  then have "strip_with p (c # r) = c # rev ys"
    using assms by (simp add: strip_with_def)
  then show ?thesis ..
qed

lemma lower_X: "lower (CHR ''X'') = CHR ''x''"
  by code_simp

lemma py_float_X: "py_float (CHR ''X'' # r) = None"
proof -
  have "\<not> is_space (CHR ''X'')" by (simp add: is_space_def)
  then obtain r' where s: "py_strip (CHR ''X'' # r) = CHR ''X'' # r'"
    unfolding py_strip_def using strip_with_keeps_head by blast
  have d: "float_decimal (CHR ''X'' # r') = None"
    by (simp add: float_decimal_def is_digit_def Let_def)
  show ?thesis
    by (simp add: py_float_def s d lower_X Let_def)
qed

lemma missing_int_field:
  assumes "take 2 header = ''DX''" "1 \<le> k"
  shows "raises_ValueError (int_of_str (py_slice header (- 1 + 2) (- 1 + 2 + k)))"
proof -
  have "2 \<le> 1 + k" using assms(2) by simp
  from slice_from_1[OF assms(1) this]
  obtain r where "py_slice header 1 (1 + k) = CHR ''X'' # r" ..
  then show ?thesis by (simp add: int_of_str_def py_int_X raises_ValueError_def)
qed

lemma missing_float_field:
  assumes "take 2 header = ''DX''"
  shows "raises_ValueError (float_of_str (py_slice header 1 4))"
proof -
  from slice_from_1[OF assms, of 4]
  obtain r where "py_slice header 1 4 = CHR ''X'' # r" by auto
  then show ?thesis by (simp add: float_of_str_def py_float_X raises_ValueError_def)
qed

lemmas ve_steps = bind_raises [OF strptime_ve] bind_raises [OF int_of_str_ve]
  bind_raises [OF traverse_ve [OF float_of_str_ve]]

lemma parse_DX_header_missing:
  assumes dx: "take 2 header = ''DX''"
    and tag: "tag \<in> set [''BY'', ''CO'', ''CD'', ''CS'', ''EP'', ''MS'']"
    and missing: "py_find header tag = - 1"
  shows "raises_ValueError (parse_DX_header header)"
proof -
  note i5 = missing_int_field[OF dx, of 5, simplified]
  note i1 = missing_int_field[OF dx, of 1, simplified]
  note i3 = missing_int_field[OF dx, of 3, simplified]
  note fl = missing_float_field[OF dx]
  from tag have "tag = ''BY'' \<or> tag = ''CO'' \<or> tag = ''CD'' \<or> tag = ''CS''
                   \<or> tag = ''EP'' \<or> tag = ''MS''"
    by simp
  then show ?thesis
  proof (elim disjE)
    assume "tag = ''BY''"
    with missing have m: "py_find header ''BY'' = - 1" by simp
    show ?thesis
      unfolding parse_DX_header_def Let_def m
      by (intro ve_steps bind_raises_first) (simp add: i5)
  next
    assume "tag = ''CO''"
    with missing have m: "py_find header ''CO'' = - 1" by simp
    show ?thesis
      unfolding parse_DX_header_def Let_def m
      by (intro ve_steps bind_raises_first) (simp add: i1)
  next
    assume "tag = ''CD''"
    with missing have m: "py_find header ''CD'' = - 1" by simp
    show ?thesis
      unfolding parse_DX_header_def Let_def m
      by (intro ve_steps bind_raises_first) (simp add: i1)
  next
    assume "tag = ''CS''"
    with missing have m: "py_find header ''CS'' = - 1" by simp
    show ?thesis
      unfolding parse_DX_header_def Let_def m
      by (intro ve_steps bind_raises_first) (simp add: i1)
  next
    assume "tag = ''EP''"
    with missing have m: "py_find header ''EP'' = - 1" by simp
    show ?thesis
      unfolding parse_DX_header_def Let_def m
      by (intro ve_steps bind_raises_first traverse_raises_first) (simp add: fl)
  next
    assume "tag = ''MS''"
    with missing have m: "py_find header ''MS'' = - 1" by simp
    show ?thesis
      unfolding parse_DX_header_def Let_def m
      by (intro ve_steps bind_raises_first) (simp add: i3)
  qed
qed

lemma parse_DX_header_version:
  assumes "parse_DX_header header = Inr out"
  shows "out ''version'' =
           Some (PStr (py_slice header (py_find header ''VS'' + 2) (py_find header ''VS'' + 4)))"
  using assms
  unfolding parse_DX_header_def Let_def
  by (auto dest!: bind_e_Inr)

text \<open>
  C5, as amended. \<^verbatim>\<open>parse_DX_header\<close> does not test whether a marker was found. In a
  header that begins with the product type \<^verbatim>\<open>DX\<close>, the absence of one of \<^verbatim>\<open>BY\<close>, \<^verbatim>\<open>CO\<close>,
  \<^verbatim>\<open>CD\<close>, \<^verbatim>\<open>CS\<close>, \<^verbatim>\<open>EP\<close>, \<^verbatim>\<open>MS\<close> makes the call raise a \<^verbatim>\<open>ValueError\<close> (its field is read
  from index 1 on and is not a number). The absence of \<^verbatim>\<open>VS\<close> raises nothing by
  itself: whenever the call returns, the version is \<^verbatim>\<open>header[1:3]\<close>.
\<close>

theorem parse_DX_header_missing_tag:
  "(take 2 header = ''DX'' \<and> tag \<in> set [''BY'', ''CO'', ''CD'', ''CS'', ''EP'', ''MS'']
      \<and> py_find header tag = - 1
      \<longrightarrow> (\<exists>msg. parse_DX_header header = Inl (ValueError msg))) \<and>
   (py_find header ''VS'' = - 1 \<and> parse_DX_header header = Inr out
      \<longrightarrow> out ''version'' = Some (PStr (py_slice header 1 3)))"
proof (intro conjI impI)
  assume "take 2 header = ''DX'' \<and> tag \<in> set [''BY'', ''CO'', ''CD'', ''CS'', ''EP'', ''MS'']
            \<and> py_find header tag = - 1"
  then have "raises_ValueError (parse_DX_header header)"
    by (intro parse_DX_header_missing[of header tag]) simp_all
  then show "\<exists>msg. parse_DX_header header = Inl (ValueError msg)"
    by (simp add: raises_ValueError_def)
next
  assume a: "py_find header ''VS'' = - 1 \<and> parse_DX_header header = Inr out"
  then have "parse_DX_header header = Inr out" by simp
  from parse_DX_header_version[OF this] a
  show "out ''version'' = Some (PStr (py_slice header 1 3))" by simp
qed

theorem parse_DX_header_missing_tag_witness:
  "(\<exists>msg. parse_DX_header dx_header_no_BY = Inl (ValueError msg)) \<and>
   (case parse_DX_header dx_header_no_VS of
      Inl e \<Rightarrow> False
    | Inr out \<Rightarrow> out ''version'' = Some (PStr ''X0''))"
proof -
  have by1: "take 2 dx_header_no_BY = ''DX'' \<and>
             ''BY'' \<in> set [''BY'', ''CO'', ''CD'', ''CS'', ''EP'', ''MS''] \<and>
             py_find dx_header_no_BY ''BY'' = - 1"
    by code_simp
  have vs: "py_find dx_header_no_VS ''VS'' = - 1" by code_simp
  have sl: "py_slice dx_header_no_VS 1 3 = ''X0''" by code_simp
  have ok: "\<not> isl (parse_DX_header dx_header_no_VS)" by code_simp
  then obtain out where out: "parse_DX_header dx_header_no_VS = Inr out"
    by (cases "parse_DX_header dx_header_no_VS") simp_all
  from parse_DX_header_missing_tag[of dx_header_no_BY "''BY''"] by1
  have one: "\<exists>msg. parse_DX_header dx_header_no_BY = Inl (ValueError msg)" by blast
  from parse_DX_header_missing_tag[of dx_header_no_VS _ out] vs out
  have "out ''version'' = Some (PStr (py_slice dx_header_no_VS 1 3))" by blast
  with one out sl show ?thesis by simp
qed

text \<open>C5, as stated, fails on a header without \<^verbatim>\<open>VS\<close>: the call returns, and the
  version is the text \<^verbatim>\<open>X0\<close> found at index 1.\<close>

theorem parse_DX_header_no_VS_counterexample:
  "py_find dx_header_no_VS ''VS'' = - 1 \<and>
   (case parse_DX_header dx_header_no_VS of
      Inl e \<Rightarrow> None
    | Inr out \<Rightarrow> Some (map out [''producttype'', ''radarid'', ''bytes'', ''version'', ''message'']))
   = Some [Some (PStr ''DX''), Some (PStr ''10488''), Some (PInt 100), Some (PStr ''X0''),
           Some (PStr ''abc'')]"
  by code_simp

subsection \<open>\<^verbatim>\<open>readDX\<close>\<close>

text \<open>
  C2. The file holds one beam of five plain bins (no zero run); its header parses and
  its payload is complete, yet \<^verbatim>\<open>readDX\<close> raises the \<^verbatim>\<open>AssertionError\<close> of \<^verbatim>\<open>unpackDX\<close>
  (a beam without flagged value must have 128 bins) instead of returning the beam.
\<close>

theorem readDX_plain_beam_raises:
  "readDX Little dx_file_plain_beam = Some (Inl AssertionError)"
proof -
  have "map_option (map_sum id fst) (readDX Little dx_file_plain_beam)
          = Some (Inl AssertionError)"
    by code_simp
  then obtain r where r: "readDX Little dx_file_plain_beam = Some r"
    and "map_sum id fst r = Inl AssertionError"
    by auto
  then have "r = Inl AssertionError" by (cases r) simp_all
  with r show ?thesis by simp
qed

text \<open>The byte count asked of \<^verbatim>\<open>f.read\<close>: the difference, less one when it is odd.\<close>

lemma dx_buflen_rounds_down:
  "dx_buflen bytes header_len = 2 * ((bytes - header_len) div 2) \<and>
   (dx_buflen bytes header_len = bytes - header_len - 1 \<longleftrightarrow> odd (bytes - header_len)) \<and>
   (dx_buflen bytes header_len = bytes - header_len \<longleftrightarrow> even (bytes - header_len))"
  unfolding dx_buflen_def Let_def by presburger

lemma dx_buflen_odd:
  "dx_buflen bytes header_len =
     (bytes - header_len) - (if odd (bytes - header_len) then 1 else 0)"
  unfolding dx_buflen_def Let_def by presburger

lemma readDX_decode_payload:
  assumes p: "parse_DX_header header = Inr attrs"
    and b: "attrs ''bytes'' = Some (PInt bytes)"
  shows "readDX_decode host content header =
           bind_e (dx_beams host
                     (file_read content (length header) (dx_buflen bytes (int (length header)))))
             (dx_arrays attrs)"
  by (simp add: readDX_decode_def p b bind_e_def dict_get_def as_int_def Let_def)

text \<open>When the header declares fewer bytes than it is long itself, the count is
  negative and the whole rest of the file is read.\<close>

lemma readDX_negative_length:
  assumes h: "dx_read_header content 0 [] False = Some header"
    and p: "parse_DX_header header = Inr attrs"
    and b: "attrs ''bytes'' = Some (PInt bytes)"
    and n: "bytes < int (length header)"
  shows "readDX host content =
           Some (bind_e (dx_beams host (drop (length header) content)) (dx_arrays attrs))"
proof -
  have "dx_buflen bytes (int (length header)) < 0"
    using n by (simp add: dx_buflen_def Let_def)
  then have "file_read content (length header) (dx_buflen bytes (int (length header)))
        = drop (length header) content"
    by (simp add: file_read_def)
  then show ?thesis
    by (simp add: readDX_def h readDX_decode_payload[OF p b])
qed

text \<open>
  C4, as amended. When the \<^verbatim>\<open>bytes\<close> field of the header is not less than the length
  of the header (terminators included), \<^verbatim>\<open>readDX\<close> decodes the bytes of the file that
  follow the header, as many as \<^verbatim>\<open>bytes\<close> minus the header length, less one exactly
  when that difference is odd, whatever the parity of the header length (and no more
  than the file holds).
\<close>

theorem readDX_reads_even_payload:
  assumes h: "dx_read_header content 0 [] False = Some header"
    and p: "parse_DX_header header = Inr attrs"
    and b: "attrs ''bytes'' = Some (PInt bytes)"
    and n: "int (length header) \<le> bytes"
  shows "readDX host content =
           Some (bind_e
                  (dx_beams host
                     (take (nat (bytes - int (length header))
                              - (if odd (bytes - int (length header)) then 1 else 0))
                        (drop (length header) content)))
                  (dx_arrays attrs))"
proof -
  let ?d = "bytes - int (length header)"
  have d: "0 \<le> ?d" using n by simp
  have "dx_buflen bytes (int (length header)) = ?d - (if odd ?d then 1 else 0)"
    by (rule dx_buflen_odd)
  moreover have "0 \<le> ?d - (if odd ?d then 1 else 0)"
    using d by (cases "?d = 0") auto
  moreover have "nat (?d - (if odd ?d then 1 else 0)) = nat ?d - (if odd ?d then 1 else 0)"
    using d by auto
  ultimately have "file_read content (length header) (dx_buflen bytes (int (length header)))
        = take (nat ?d - (if odd ?d then 1 else 0)) (drop (length header) content)"
    by (simp add: file_read_def)
  then show ?thesis
    by (simp add: readDX_def h readDX_decode_payload[OF p b])
qed

text \<open>On the file with a header of 73 bytes that declares 92 bytes: of the 19 bytes
  behind the header the first 18 are decoded, one beam of eight bins.\<close>

theorem readDX_reads_even_payload_witness:
  "map_option length (dx_read_header dx_file_odd_header 0 [] False) = Some 73 \<and>
   map_option (\<lambda>header. map_sum id (\<lambda>out. out ''bytes'') (parse_DX_header header))
     (dx_read_header dx_file_odd_header 0 [] False) = Some (Inr (Some (PInt 92))) \<and>
   (73 :: int) \<le> 92 \<and> odd (92 - 73 :: int) \<and>
   dx_beams Little (take 18 (drop 73 dx_file_odd_header))
     = Inr ([[1, 2, 0, 0, 0, 3, 4, 5]], [1 / 2], [10]) \<and>
   map_option (map_sum id fst) (readDX Little dx_file_odd_header)
     = Some (Inr [[- 32, - 63 / 2, - 65 / 2, - 65 / 2, - 65 / 2, - 31, - 61 / 2, - 30]])"
proof -
  have l: "map_option length (dx_read_header dx_file_odd_header 0 [] False) = Some 73"
    by code_simp
  then obtain header where hd: "dx_read_header dx_file_odd_header 0 [] False = Some header"
    and len: "length header = 73"
    by auto
  have pb: "map_option (\<lambda>header. map_sum id (\<lambda>out. out ''bytes'') (parse_DX_header header))
          (dx_read_header dx_file_odd_header 0 [] False) = Some (Inr (Some (PInt 92)))"
    by code_simp
  with hd obtain attrs where p: "parse_DX_header header = Inr attrs"
    and b: "attrs ''bytes'' = Some (PInt 92)"
    by (cases "parse_DX_header header") auto
  have n: "int (length header) \<le> 92" by (simp add: len)
  have bm: "dx_beams Little (take 18 (drop 73 dx_file_odd_header))
     = Inr ([[1, 2, 0, 0, 0, 3, 4, 5]], [1 / 2], [10])"
    by code_simp
  from readDX_reads_even_payload [OF hd p b n, of Little]
  have "readDX Little dx_file_odd_header =
          Some (bind_e (dx_beams Little (take 18 (drop 73 dx_file_odd_header))) (dx_arrays attrs))"
    by (simp add: len)
  then have "map_option (map_sum id fst) (readDX Little dx_file_odd_header)
     = Some (Inr [[- 32, - 63 / 2, - 65 / 2, - 65 / 2, - 65 / 2, - 31, - 61 / 2, - 30]])"
    by (simp add: bm bind_e_def dx_arrays_def)
  with l pb bm show ?thesis by simp
qed

text \<open>
  C4, as stated, fails on the file whose header is 73 bytes long and declares 92
  bytes: the payload length 19 is odd and so is the header length, yet 18 bytes are
  read, the nine values of the beam.
\<close>

theorem dx_buflen_odd_header_counterexample:
  "map_option length (dx_read_header dx_file_odd_header 0 [] False) = Some 73 \<and>
   map_option (\<lambda>header. map_sum id (\<lambda>out. out ''bytes'') (parse_DX_header header))
     (dx_read_header dx_file_odd_header 0 [] False) = Some (Inr (Some (PInt 92))) \<and>
   odd (92 - 73 :: int) \<and> odd (73 :: int) \<and>
   dx_buflen 92 73 = 18 \<and> dx_buflen 92 73 \<noteq> 92 - 73 \<and>
   map_option (map_sum id fst) (readDX Little dx_file_odd_header)
     = Some (Inr [[- 32, - 63 / 2, - 65 / 2, - 65 / 2, - 65 / 2, - 31, - 61 / 2, - 30]])"
  by code_simp

subsection \<open>\<^verbatim>\<open>RainbowDomNode.nodeList\<close>\<close>

text \<open>The filter of the source and the test of the specification select the same
  nodes of a bucket.\<close>

lemma filter_bucket_seg_test:
  "filter_bucket a v bucket = filter (seg_test (t, a, v)) bucket"
  by (cases a; cases v)
     (auto simp: filter_bucket_def seg_test_def attr_def hasAttr_def dom_def intro!: filter_cong)

lemma nodeList_loop_path_query:
  "traverse splitTag tagList = Inr sgs \<Longrightarrow>
     nodeList_loop tagList curNode nl =
       Inr (if sgs = [] then nl else path_query curNode sgs)"
proof (induction tagList arbitrary: sgs curNode nl)
  case Nil
  then show ?case by simp
next
  case (Cons tag tagList)
  from traverse_Cons_Inr[OF Cons.prems]
  obtain sg sgs' where sg: "splitTag tag = Inr sg"
    and rest: "traverse splitTag tagList = Inr sgs'" and sgs: "sgs = sg # sgs'"
    by blast
  obtain t a v where sg3: "sg = (t, a, v)" by (cases sg)
  note IH = Cons.IH[OF rest]
  show ?case
  proof (cases "childMap curNode t")
    case None
    then show ?thesis
      by (cases sgs') (simp_all add: sg sg3 sgs bind_e_def seg_matches_def)
  next
    case (Some bucket)
    let ?nl = "filter (seg_test (t, a, v)) bucket"
    have m: "seg_matches curNode (t, a, v) = ?nl"
      by (simp add: seg_matches_def Some)
    have fb: "filter_bucket a v bucket = ?nl"
      by (rule filter_bucket_seg_test)
    show ?thesis
    proof (cases ?nl)
      case Nil
      then show ?thesis
        by (cases sgs') (simp_all add: sg sg3 sgs bind_e_def Some fb m Let_def)
    next
      case (Cons n ns)
      then show ?thesis
        by (cases sgs') (simp_all add: sg sg3 sgs bind_e_def Some fb m IH Let_def)
    qed
  qed
qed

lemma py_split_nonempty: "py_split s sep \<noteq> []"
  by (induction s) (auto split: list.splits)

text \<open>The written form of a well-formed path splits into its segments, and
  \<^verbatim>\<open>_splitTag\<close> reads each of the three forms of a segment back.\<close>

lemma py_split_plain: "sep \<notin> set s \<Longrightarrow> py_split s sep = [s]"
  by (induction s) auto

lemma py_split_append:
  "sep \<notin> set s \<Longrightarrow> py_split (s @ sep # t) sep = s # py_split t sep"
  by (induction s) auto

lemma free_of_notin: "free_of special s \<Longrightarrow> c \<in> set special \<Longrightarrow> c \<notin> set s"
  by (auto simp: free_of_def list_all_iff)

lemma splitTag_segment_text:
  assumes "segment_ok sg"
  shows "splitTag (segment_text sg) = Inr sg"
proof -
  obtain n a v where sg: "sg = (n, a, v)" by (cases sg)
  show ?thesis
  proof (cases a)
    case None
    with assms sg have v: "v = None" and n: "free_of ''/@'' n"
      by (auto simp: segment_ok_def split: option.splits)
    from n have "CHR ''@'' \<notin> set n" by (rule free_of_notin) simp
    with None v sg show ?thesis
      by (simp add: splitTag_def segment_text_def)
  next
    case (Some a')
    show ?thesis
    proof (cases v)
      case None
      with assms sg Some have n: "free_of ''/@'' n" and a: "free_of ''/@='' a'"
        by (auto simp: segment_ok_def)
      from n have n1: "CHR ''@'' \<notin> set n" by (rule free_of_notin) simp
      from a have a1: "CHR ''@'' \<notin> set a'" by (rule free_of_notin) simp
      from a have a2: "CHR ''='' \<notin> set a'" by (rule free_of_notin) simp
      have "py_split (n @ CHR ''@'' # a') CHR ''@'' = [n, a']"
        using n1 a1 by (simp add: py_split_append py_split_plain)
      with None Some sg a2 show ?thesis
        by (simp add: splitTag_def segment_text_def)
    next
      case (Some v')
      with assms sg \<open>a = Some a'\<close>
      have n: "free_of ''/@'' n" and a: "free_of ''/@='' a'" and v: "free_of ''/@='' v'"
        by (auto simp: segment_ok_def)
      from n have n1: "CHR ''@'' \<notin> set n" by (rule free_of_notin) simp
      from a have a1: "CHR ''@'' \<notin> set a'" by (rule free_of_notin) simp
      from a have a2: "CHR ''='' \<notin> set a'" by (rule free_of_notin) simp
      from v have v1: "CHR ''@'' \<notin> set v'" by (rule free_of_notin) simp
      from v have v2: "CHR ''='' \<notin> set v'" by (rule free_of_notin) simp
      have "CHR ''@'' \<notin> set (a' @ CHR ''='' # v')" using a1 v1 by simp
      then have s1: "py_split (n @ CHR ''@'' # a' @ CHR ''='' # v') CHR ''@'' = [n, a' @ CHR ''='' # v']"
        using n1 by (simp add: py_split_append py_split_plain)
      have s2: "py_split (a' @ CHR ''='' # v') CHR ''='' = [a', v']"
        using a2 v2 by (simp add: py_split_append py_split_plain)
      from Some \<open>a = Some a'\<close> sg s1 s2 show ?thesis
        by (simp add: splitTag_def segment_text_def)
    qed
  qed
qed

lemma segment_text_no_slash:
  assumes "segment_ok sg"
  shows "CHR ''/'' \<notin> set (segment_text sg)"
proof -
  obtain n a v where sg: "sg = (n, a, v)" by (cases sg)
  have f: "\<And>sp s. free_of sp s \<Longrightarrow> CHR ''/'' \<in> set sp \<Longrightarrow> CHR ''/'' \<notin> set s"
    by (rule free_of_notin)
  show ?thesis
    using assms sg
    by (cases a; cases v) (auto simp: segment_ok_def segment_text_def dest!: f)
qed

lemma py_split_path_text:
  "sgs \<noteq> [] \<Longrightarrow> list_all segment_ok sgs \<Longrightarrow>
     py_split (path_text sgs) CHR ''/'' = map segment_text sgs"
proof (induction sgs rule: path_text.induct)
  case 1
  then show ?case by simp
next
  case (2 sg)
  then show ?case by (simp add: py_split_plain segment_text_no_slash)
next
  case (3 sg sg' sgs)
  then show ?case by (simp add: py_split_append segment_text_no_slash)
qed

lemma traverse_splitTag:
  "list_all segment_ok sgs \<Longrightarrow> traverse splitTag (map segment_text sgs) = Inr sgs"
  by (induction sgs) (simp_all add: splitTag_segment_text bind_e_def)

text \<open>On any path whose segments split, the loop is the path query on the segments
  read.\<close>

lemma nodeList_split_path_query:
  assumes "traverse splitTag (py_split path CHR ''/'') = Inr sgs"
  shows "nodeList self path = Inr (path_query self sgs)"
proof -
  have "sgs \<noteq> []"
  proof
    assume "sgs = []"
    with assms have "py_split path CHR ''/'' = []"
      by (cases "py_split path CHR ''/''") (auto dest!: bind_e_Inr)
    then show False by (simp add: py_split_nonempty)
  qed
  with nodeList_loop_path_query[OF assms] show ?thesis
    by (simp add: nodeList_def)
qed

text \<open>
  C10. For every path written as the specification says, \<^verbatim>\<open>nodeList\<close> returns what
  the path query of the specification returns: at each intermediate segment the first
  node of the bucket of that name that passes the segment's test (the attribute is
  present for \<^verbatim>\<open>@attr\<close>, has the value for \<^verbatim>\<open>@attr=value\<close>), and all such nodes of the
  last segment.
\<close>

theorem nodeList_path_query:
  assumes "sgs \<noteq> []" and "list_all segment_ok sgs"
  shows "nodeList self (path_text sgs) = Inr (path_query self sgs)"
proof -
  have "traverse splitTag (py_split (path_text sgs) CHR ''/'') = Inr sgs"
    using assms by (simp add: py_split_path_text traverse_splitTag)
  then show ?thesis by (rule nodeList_split_path_query)
qed

text \<open>On the trees with three \<^verbatim>\<open>scan\<close> siblings: \<^verbatim>\<open>scan@type=b/ray\<close> goes through the
  first scan of type \<^verbatim>\<open>b\<close> and returns its two rays; \<^verbatim>\<open>scan@type/ray\<close> skips the scan
  without attribute; \<^verbatim>\<open>scan/ray\<close> takes the first scan; the last segment \<^verbatim>\<open>scan@type\<close>
  returns both scans that have the attribute.\<close>

theorem nodeList_path_query_witness:
  "list_all segment_ok [(''scan'', Some ''type'', Some ''b''), (''ray'', None, None)] \<and>
   path_text [(''scan'', Some ''type'', Some ''b''), (''ray'', None, None)] = ''scan@type=b/ray'' \<and>
   list_all segment_ok [(''scan'', Some ''type'', None), (''ray'', None, None)] \<and>
   path_text [(''scan'', Some ''type'', None), (''ray'', None, None)] = ''scan@type/ray'' \<and>
   nodeList volume ''scan@type=b/ray'' = Inr [ray ''r1'', ray ''r2''] \<and>
   nodeList volume_mixed ''scan@type/ray'' = Inr [ray ''r1'', ray ''r2''] \<and>
   nodeList volume_mixed ''scan/ray'' = Inr [ray ''r0''] \<and>
   nodeList volume_mixed ''scan@type'' = Inr [scan ''b'' [ray ''r1'', ray ''r2''], scan ''b'' [ray ''r3'']]"
proof -
  let ?p1 = "[(''scan'', Some ''type'', Some ''b''), (''ray'', None, None)]"
  let ?p2 = "[(''scan'', Some ''type'', None), (''ray'', None, None)]"
  let ?p3 = "[(''scan'', None, None), (''ray'', None, None)]"
  let ?p4 = "[(''scan'', Some ''type'', None)]"
  have ok: "list_all segment_ok ?p1" "list_all segment_ok ?p2" "list_all segment_ok ?p3"
    "list_all segment_ok ?p4"
    by (simp_all add: segment_ok_def free_of_def)
  have t: "path_text ?p1 = ''scan@type=b/ray''" "path_text ?p2 = ''scan@type/ray''"
    "path_text ?p3 = ''scan/ray''" "path_text ?p4 = ''scan@type''"
    by (simp_all add: segment_text_def)
  have q: "path_query volume ?p1 = [ray ''r1'', ray ''r2'']"
    "path_query volume_mixed ?p2 = [ray ''r1'', ray ''r2'']"
    "path_query volume_mixed ?p3 = [ray ''r0'']"
    "path_query volume_mixed ?p4 = [scan ''b'' [ray ''r1'', ray ''r2''], scan ''b'' [ray ''r3'']]"
    by (simp_all add: volume_def volume_mixed_def scan_def bare_scan_def ray_def
          seg_matches_def seg_test_def)
  have r1: "nodeList volume (path_text ?p1) = Inr (path_query volume ?p1)"
    by (rule nodeList_path_query [OF _ ok(1)]) simp
  have r2: "nodeList volume_mixed (path_text ?p2) = Inr (path_query volume_mixed ?p2)"
    by (rule nodeList_path_query [OF _ ok(2)]) simp
  have r3: "nodeList volume_mixed (path_text ?p3) = Inr (path_query volume_mixed ?p3)"
    by (rule nodeList_path_query [OF _ ok(3)]) simp
  have r4: "nodeList volume_mixed (path_text ?p4) = Inr (path_query volume_mixed ?p4)"
    by (rule nodeList_path_query [OF _ ok(4)]) simp
  from ok(1) t(1) ok(2) t(2)
    r1 [unfolded t q] r2 [unfolded t q] r3 [unfolded t q] r4 [unfolded t q]
  show ?thesis by blast
qed

end
